theory Spec2Isabelle
  imports Complex_Main "HOL-Library.Sublist"
begin

section \<open>Data model\<close>

text \<open>
  The script \<^verbatim>\<open>main.py\<close> sequences calls to a PDF loader, a text splitter, the
  Pinecone SDK and a chat model. None of these is part of the repository, so each of
  them is an oracle of the record \<open>services\<close>; the script itself is modelled call by
  call, and everything it does to the outside world is an \<open>event\<close> appended to a trace.
\<close>

text \<open>A loaded page or a chunk (langchain's \<^verbatim>\<open>Document\<close>): its text and its metadata.\<close>

record document =
  page_content :: string
  metadata :: "(string \<times> string) list"

text \<open>An index record is the dict literal of lines 130-134, kept as an association list.\<close>

type_synonym index_record = "(string \<times> string) list"

text \<open>One hit of a similarity query.\<close>

record hit =
  hit_id :: string
  hit_score :: rat
  hit_fields :: "(string \<times> string) list"

text \<open>
  The exceptions of class \<^verbatim>\<open>Exception\<close> that can occur: a failure inside a library call
  (with its message), a missing key of \<^verbatim>\<open>os.environ\<close>, and a global read before it
  is assigned.
\<close>

datatype exn = ServiceError string | KeyError string | NameError string

text \<open>\<^verbatim>\<open>str(e)\<close>, as the f-strings of lines 32 and 152 format it.\<close>

fun str_exn :: "exn \<Rightarrow> string" where
  "str_exn (ServiceError msg) = msg"
| "str_exn (KeyError k) = [CHR 0x27] @ k @ [CHR 0x27]"
| "str_exn (NameError n) = ''name '' @ [CHR 0x27] @ n @ [CHR 0x27] @ '' is not defined''"

text \<open>
  The handles the script keeps: the chat model (model name, key, temperature) and the
  chain built from it with \<^verbatim>\<open>prompt=None\<close> (line 191).
\<close>

datatype llm = ChatGoogleGenerativeAI string string rat

datatype chain = StuffDocumentsChain llm

text \<open>
  Every effect of the script, in the order it happens. An index operation carries the
  name of the index its handle was opened for.
\<close>

datatype event =
    Print string
  | PyPDFDirectoryLoad string
  | SplitDocuments int int "document list"
  | PineconeInit string
  | ListIndexes
  | DeleteIndex string
  | Sleep nat
  | CreateIndexForModel string string string string "(string \<times> string) list"
  | OpenIndex string
  | UpsertRecords string string "index_record list"
  | DescribeIndexStats string
  | QueryIndex string string int string
  | ChatModelInit string string rat
  | CreateStuffChain llm
  | ChainInvoke chain "hit list" string

text \<open>
  The outside world. \<open>environ\<close> is the environment the process inherits and
  \<open>dotenv\<close> the assignments of the \<^verbatim>\<open>.env\<close> file that \<^verbatim>\<open>load_dotenv()\<close> (line 12)
  reads. Every library call is an oracle that sees all the operations of the run up to
  and including the call (so its arguments are the last event) and either raises or
  returns.
\<close>

record services =
  environ :: "string \<Rightarrow> string option"
  dotenv :: "string \<Rightarrow> string option"
  pdf_directory_load :: "event list \<Rightarrow> exn + document list"
  split_documents :: "event list \<Rightarrow> exn + document list"
  pinecone_init :: "event list \<Rightarrow> exn + unit"
  list_index_names :: "event list \<Rightarrow> exn + string list"
  delete_index :: "event list \<Rightarrow> exn + unit"
  create_index_for_model :: "event list \<Rightarrow> exn + unit"
  open_index :: "event list \<Rightarrow> exn + unit"
  upsert_records :: "event list \<Rightarrow> exn + unit"
  describe_index_stats :: "event list \<Rightarrow> exn + string"
  query_hits :: "event list \<Rightarrow> exn + hit list"
  chat_model_init :: "event list \<Rightarrow> exn + unit"
  create_stuff_documents_chain :: "event list \<Rightarrow> exn + unit"
  chain_invoke :: "event list \<Rightarrow> exn + string"
  repr_hits :: "hit list \<Rightarrow> string"

text \<open>
  The state of the process: the trace, and the two module globals \<^verbatim>\<open>index\<close> and
  \<^verbatim>\<open>chain\<close> that \<^verbatim>\<open>main\<close> assigns (lines 180 and 190), unbound at first.
\<close>

record state =
  trace :: "event list"
  g_index :: "string option"
  g_chain :: "chain option"

definition init_state :: state where
  "init_state = \<lparr>trace = [], g_index = None, g_chain = None\<rparr>"

type_synonym 'a prog = "state \<Rightarrow> (exn + 'a) \<times> state"

section \<open>Sequencing of statements\<close>

definition ret :: "'a \<Rightarrow> 'a prog" where
  "ret x s = (Inr x, s)"

definition raise :: "exn \<Rightarrow> 'a prog" where
  "raise e s = (Inl e, s)"

text \<open>One statement after another; an exception skips the rest.\<close>

definition bind_prog :: "'a prog \<Rightarrow> ('a \<Rightarrow> 'b prog) \<Rightarrow> 'b prog" where
  "bind_prog m f s = (case m s of (Inl e, s') \<Rightarrow> (Inl e, s') | (Inr x, s') \<Rightarrow> f x s')"

text \<open>\<^verbatim>\<open>try: m except Exception as e: h e\<close>\<close>

definition catch :: "'a prog \<Rightarrow> (exn \<Rightarrow> 'a prog) \<Rightarrow> 'a prog" where
  "catch m h s = (case m s of (Inl e, s') \<Rightarrow> h e s' | (Inr x, s') \<Rightarrow> (Inr x, s'))"

definition emit :: "event \<Rightarrow> state \<Rightarrow> state" where
  "emit ev s = s\<lparr>trace := trace s @ [ev]\<rparr>"

definition say :: "string \<Rightarrow> unit prog" where
  "say msg s = (Inr (), emit (Print msg) s)"

definition sleep :: "nat \<Rightarrow> unit prog" where
  "sleep secs s = (Inr (), emit (Sleep secs) s)"

text \<open>The operations on the outside world: every event but the printed lines.\<close>

definition is_call :: "event \<Rightarrow> bool" where
  "is_call ev = (case ev of Print _ \<Rightarrow> False | _ \<Rightarrow> True)"

definition calls :: "event list \<Rightarrow> event list" where
  "calls es = filter is_call es"

text \<open>
  A library call: the event is recorded, then the oracle answers. What the script has
  printed is invisible to a library, so the oracle is given the operations only.
\<close>

definition call :: "(event list \<Rightarrow> exn + 'a) \<Rightarrow> event \<Rightarrow> 'a prog" where
  "call oracle ev s = (let s' = emit ev s in (oracle (calls (trace s')), s'))"

section \<open>Formatting\<close>

text \<open>The decimal digits of a natural number, as \<^verbatim>\<open>f"{i}"\<close> prints an index or a length.\<close>

fun str_nat :: "nat \<Rightarrow> string" where
  "str_nat n =
     (if n < 10 then [''0123456789'' ! n]
      else str_nat (n div 10) @ [''0123456789'' ! (n mod 10)])"

declare str_nat.simps [simp del]

text \<open>\<^verbatim>\<open>sep.join(xs)\<close>\<close>

fun join :: "string \<Rightarrow> string list \<Rightarrow> string" where
  "join sep [] = []"
| "join sep [x] = x"
| "join sep (x # y # ys) = x @ sep @ join sep (y # ys)"

section \<open>The environment\<close>

text \<open>
  \<^verbatim>\<open>os.environ\<close> once \<^verbatim>\<open>load_dotenv()\<close> has run: a variable the process inherited
  keeps its value, any other one takes the value of the \<^verbatim>\<open>.env\<close> file.
\<close>

definition os_environ :: "services \<Rightarrow> string \<Rightarrow> string option" where
  "os_environ sv var = (case environ sv var of Some v \<Rightarrow> Some v | None \<Rightarrow> dotenv sv var)"

text \<open>\<^verbatim>\<open>os.environ[var]\<close>\<close>

definition environ_getitem :: "services \<Rightarrow> string \<Rightarrow> string prog" where
  "environ_getitem sv var =
     (case os_environ sv var of None \<Rightarrow> raise (KeyError var) | Some v \<Rightarrow> ret v)"

section \<open>The functions of main.py\<close>

subsection \<open>read_doc (lines 15-33)\<close>

definition read_doc :: "services \<Rightarrow> string \<Rightarrow> document list prog" where
  "read_doc sv directory =
     catch
       (bind_prog (call (pdf_directory_load sv) (PyPDFDirectoryLoad directory)) (\<lambda>documents.
        bind_prog (if documents = []
                   then say (''No PDF files found in directory: '' @ directory)
                   else ret ()) (\<lambda>_.
        ret documents)))
       (\<lambda>e.
        bind_prog (say (''Error loading documents from '' @ directory @ '': '' @ str_exn e)) (\<lambda>_.
        ret []))"

subsection \<open>chunk_data (lines 36-53)\<close>

text \<open>
  The splitter is built with the two parameters and applied to the documents; both
  steps are the library's, recorded as one call.
\<close>

definition chunk_data :: "services \<Rightarrow> document list \<Rightarrow> int \<Rightarrow> int \<Rightarrow> document list prog" where
  "chunk_data sv docs chunk_size chunk_overlap =
     (if docs = []
      then bind_prog (say ''No documents to chunk.'') (\<lambda>_. ret [])
      else call (split_documents sv) (SplitDocuments chunk_size chunk_overlap docs))"

subsection \<open>retrieve_query (lines 56-76)\<close>

text \<open>Reading the global \<^verbatim>\<open>index\<close>, and the global \<^verbatim>\<open>chain\<close>.\<close>

definition get_index :: "string prog" where
  "get_index s = (case g_index s of None \<Rightarrow> (Inl (NameError ''index''), s) | Some ix \<Rightarrow> (Inr ix, s))"

definition get_chain :: "chain prog" where
  "get_chain s = (case g_chain s of None \<Rightarrow> (Inl (NameError ''chain''), s) | Some ch \<Rightarrow> (Inr ch, s))"

definition retrieve_query :: "services \<Rightarrow> string \<Rightarrow> int \<Rightarrow> hit list prog" where
  "retrieve_query sv query k =
     bind_prog get_index (\<lambda>ix.
     bind_prog (call (query_hits sv) (QueryIndex ix ''default'' k query)) (\<lambda>hits.
     ret hits))"

text \<open>The default of the parameter \<^verbatim>\<open>k\<close> (line 56).\<close>

definition retrieve_query_default_k :: int where
  "retrieve_query_default_k = 2"

subsection \<open>retrieve_answers (lines 79-92)\<close>

definition retrieve_answers :: "services \<Rightarrow> string \<Rightarrow> string prog" where
  "retrieve_answers sv query =
     bind_prog (retrieve_query sv query retrieve_query_default_k) (\<lambda>doc_search.
     bind_prog (say (''Retrieved documents: '' @ repr_hits sv doc_search)) (\<lambda>_.
     bind_prog get_chain (\<lambda>ch.
     bind_prog (call (chain_invoke sv) (ChainInvoke ch doc_search query)) (\<lambda>response.
     ret response))))"

subsection \<open>setup_pinecone_index (lines 94-154)\<close>

definition index_name :: string where
  "index_name = ''lanchain''"

definition batch_size :: nat where
  "batch_size = 50"

text \<open>The list comprehension of lines 129-135.\<close>

definition build_records :: "document list \<Rightarrow> index_record list" where
  "build_records documents =
     map (\<lambda>(i, doc).
            [(''_id'', ''doc_'' @ str_nat i),
             (''chunk_text'', page_content doc),
             (''category'', ''budget'')])
         (enumerate 0 documents)"

text \<open>The progress line of each batch (line 141).\<close>

definition batch_message :: "nat \<Rightarrow> index_record list \<Rightarrow> string" where
  "batch_message i batch =
     ''Upserting batch '' @ str_nat (i div batch_size + 1) @ '' with ''
       @ str_nat (length batch) @ '' records''"

text \<open>
  The loop of lines 139-142, entered at \<open>i\<close>: \<^verbatim>\<open>range(0, len(records), batch_size)\<close>
  steps \<open>i\<close> by \<open>batch_size\<close> while it is below the length, and the slice
  \<^verbatim>\<open>records[i:i + batch_size]\<close> is \<open>take batch_size (drop i records)\<close>. An upsert that
  raises ends the loop.
\<close>

function upsert_loop :: "services \<Rightarrow> string \<Rightarrow> index_record list \<Rightarrow> nat \<Rightarrow> unit prog" where
  "upsert_loop sv ix records i s =
     (if i < length records then
        (let batch = take batch_size (drop i records) in
         case bind_prog
                (say (batch_message i batch))
                (\<lambda>_. call (upsert_records sv) (UpsertRecords ix ''default'' batch)) s of
           (Inl e, s') \<Rightarrow> (Inl e, s')
         | (Inr _, s') \<Rightarrow> upsert_loop sv ix records (i + batch_size) s')
      else (Inr (), s))"
  by pat_completeness auto
termination
  by (relation "measure (\<lambda>(sv, ix, records, i, s). length records - i)")
     (auto simp: batch_size_def)

declare upsert_loop.simps [simp del]

text \<open>The body of the \<^verbatim>\<open>try\<close> block (lines 105-149).\<close>

definition setup_try_body :: "services \<Rightarrow> document list \<Rightarrow> string prog" where
  "setup_try_body sv documents =
     bind_prog (environ_getitem sv ''PINECONE_API_KEY'') (\<lambda>api_key.
     bind_prog (call (pinecone_init sv) (PineconeInit api_key)) (\<lambda>_.
     bind_prog (call (list_index_names sv) ListIndexes) (\<lambda>names.
     bind_prog (if index_name \<in> set names
                then bind_prog (say (''Deleting existing index '' @ [CHR 0x27] @ index_name
                                     @ [CHR 0x27] @ ''...'')) (\<lambda>_.
                     bind_prog (call (delete_index sv) (DeleteIndex index_name)) (\<lambda>_.
                     sleep 10))
                else ret ()) (\<lambda>_.
     bind_prog (say (''Creating index '' @ [CHR 0x27] @ index_name @ [CHR 0x27]
                     @ '' with integrated embedding...'')) (\<lambda>_.
     bind_prog (call (create_index_for_model sv)
                  (CreateIndexForModel index_name ''aws'' ''us-east-1'' ''llama-text-embed-v2''
                     [(''text'', ''chunk_text'')])) (\<lambda>_.
     bind_prog (sleep 10) (\<lambda>_.
     bind_prog (call (open_index sv) (OpenIndex index_name)) (\<lambda>_.
     bind_prog (upsert_loop sv index_name (build_records documents) 0) (\<lambda>_.
     bind_prog (say (''Upserted '' @ str_nat (length documents) @ '' documents into index ''
                     @ [CHR 0x27] @ index_name @ [CHR 0x27] @ ''.'')) (\<lambda>_.
     bind_prog (call (describe_index_stats sv) (DescribeIndexStats index_name)) (\<lambda>stats.
     bind_prog (say (''Index stats: '' @ stats)) (\<lambda>_.
     ret index_name))))))))))))"

text \<open>The whole function: the handler of lines 151-154 reports and raises again.\<close>

definition setup_pinecone_index :: "services \<Rightarrow> document list \<Rightarrow> string prog" where
  "setup_pinecone_index sv documents =
     catch (setup_try_body sv documents)
       (\<lambda>e.
        bind_prog (say (''Failed to initialize Pinecone or upsert data: '' @ str_exn e)) (\<lambda>_.
        bind_prog (say (''Please verify the API key and ensure the '' @ [CHR 0x27] @ ''lanchain''
                        @ [CHR 0x27] @ '' index exists in the us-east-1 region.'')) (\<lambda>_.
        raise e)))"

subsection \<open>main (lines 156-196)\<close>

definition DOCUMENTS_DIRECTORY :: string where
  "DOCUMENTS_DIRECTORY = ''F:'' @ [CHR 0x5C] @ ''DBLear'' @ [CHR 0x5C] @ ''documents''"

definition QUERY :: string where
  "QUERY = ''How much the agriculture target will be increased by how many crore?''"

definition set_index :: "string \<Rightarrow> unit prog" where
  "set_index ix s = (Inr (), s\<lparr>g_index := Some ix\<rparr>)"

definition set_chain :: "chain \<Rightarrow> unit prog" where
  "set_chain ch s = (Inr (), s\<lparr>g_chain := Some ch\<rparr>)"

definition main :: "services \<Rightarrow> unit prog" where
  "main sv =
     bind_prog (say ''Loading documents...'') (\<lambda>_.
     bind_prog (read_doc sv DOCUMENTS_DIRECTORY) (\<lambda>doc.
     bind_prog (say (''Number of documents loaded: '' @ str_nat (length doc))) (\<lambda>_.
     if doc = [] then
       bind_prog (say ''No documents found. Please check the directory path.'') (\<lambda>_.
       ret ())
     else
       bind_prog (say ''Chunking documents...'') (\<lambda>_.
       bind_prog (chunk_data sv doc 800 50) (\<lambda>documents.
       bind_prog (say (''Number of documents after chunking: '' @ str_nat (length documents))) (\<lambda>_.
       bind_prog (say ''Setting up Pinecone index...'') (\<lambda>_.
       bind_prog (setup_pinecone_index sv documents) (\<lambda>ix.
       bind_prog (set_index ix) (\<lambda>_.
       bind_prog (say ''Initializing LLM and QA chain...'') (\<lambda>_.
       bind_prog (environ_getitem sv ''GOOGLE_API_KEY'') (\<lambda>google_api_key.
       bind_prog (call (chat_model_init sv)
                    (ChatModelInit ''gemini-2.0-flash'' google_api_key (1 / 2))) (\<lambda>_.
       let llm = ChatGoogleGenerativeAI ''gemini-2.0-flash'' google_api_key (1 / 2) in
       bind_prog (call (create_stuff_documents_chain sv) (CreateStuffChain llm)) (\<lambda>_.
       bind_prog (set_chain (StuffDocumentsChain llm)) (\<lambda>_.
       bind_prog (say (''Processing query: '' @ QUERY)) (\<lambda>_.
       bind_prog (retrieve_answers sv QUERY) (\<lambda>answer.
       bind_prog (say (''Answer: '' @ answer)) (\<lambda>_.
       ret ())))))))))))))))))"

subsection \<open>The entry block (lines 198-208)\<close>

text \<open>How the process ends: \<^verbatim>\<open>exit(n)\<close>, an exception nobody caught, or the end of the script.\<close>

datatype process_end = SystemExit int | Uncaught exn | Completed

definition required_vars :: "string list" where
  "required_vars = [''GOOGLE_API_KEY'', ''PINECONE_API_KEY'']"

text \<open>\<^verbatim>\<open>not os.environ.get(var)\<close>: the variable is unset, or set to the empty string.\<close>

definition not_set :: "services \<Rightarrow> string \<Rightarrow> bool" where
  "not_set sv var = (case os_environ sv var of None \<Rightarrow> True | Some v \<Rightarrow> v = [])"

definition missing_vars :: "services \<Rightarrow> string list" where
  "missing_vars sv = filter (not_set sv) required_vars"

definition script :: "services \<Rightarrow> process_end \<times> state" where
  "script sv =
     (if missing_vars sv \<noteq> [] then
        (case bind_prog (say (''Error: Missing required environment variables: ''
                              @ join '', '' (missing_vars sv))) (\<lambda>_.
              say ''Please create a .env file with your API keys.'') init_state of
           (Inl e, s) \<Rightarrow> (Uncaught e, s)
         | (Inr _, s) \<Rightarrow> (SystemExit 1, s))
      else
        (case main sv init_state of
           (Inl e, s) \<Rightarrow> (Uncaught e, s)
         | (Inr _, s) \<Rightarrow> (Completed, s)))"

section \<open>Observations on traces\<close>

text \<open>The events a run added to the trace of the state it started from.\<close>

definition new_events :: "state \<Rightarrow> state \<Rightarrow> event list" where
  "new_events s s' = drop (length (trace s)) (trace s')"

text \<open>The batches of the upsert requests of a trace, in the order they were issued.\<close>

fun upserted :: "event list \<Rightarrow> index_record list list" where
  "upserted [] = []"
| "upserted (UpsertRecords ix ns batch # es) = batch # upserted es"
| "upserted (_ # es) = upserted es"

text \<open>
  Two functions that only the proofs use. \<open>batches_from i rs\<close> lists the slices that the
  loop cuts from position \<open>i\<close> on when no request fails, and \<open>loop_out\<close> is the loop
  as a function of the operations so far: its result and the events it adds.
\<close>

function batches_from :: "nat \<Rightarrow> 'a list \<Rightarrow> 'a list list" where
  "batches_from i rs =
     (if i < length rs then take batch_size (drop i rs) # batches_from (i + batch_size) rs else [])"
  by pat_completeness auto
termination
  by (relation "measure (\<lambda>(i, rs). length rs - i)") (auto simp: batch_size_def)

declare batches_from.simps [simp del]

function loop_out :: "services \<Rightarrow> string \<Rightarrow> index_record list \<Rightarrow> nat \<Rightarrow> event list \<Rightarrow> (exn + unit) \<times> event list" where
  "loop_out sv ix records i h =
     (if i < length records then
        (let batch = take batch_size (drop i records);
             h' = h @ [UpsertRecords ix ''default'' batch];
             es = [Print (batch_message i batch), UpsertRecords ix ''default'' batch]
         in case upsert_records sv h' of
              Inl e \<Rightarrow> (Inl e, es)
            | Inr _ \<Rightarrow> (case loop_out sv ix records (i + batch_size) h' of
                          (r, es') \<Rightarrow> (r, es @ es')))
      else (Inr (), []))"
  by pat_completeness auto
termination
  by (relation "measure (\<lambda>(sv, ix, records, i, h). length records - i)")
     (auto simp: batch_size_def)

declare loop_out.simps [simp del]

text \<open>
  The operations of a complete build, in order, for the key \<open>key\<close>, the index names
  \<open>names\<close> that the listing returned and the batches \<open>bs\<close>.
\<close>

definition reset_plan :: "string \<Rightarrow> string list \<Rightarrow> index_record list list \<Rightarrow> event list" where
  "reset_plan key names bs =
     [PineconeInit key, ListIndexes]
     @ (if index_name \<in> set names then [DeleteIndex index_name, Sleep 10] else [])
     @ [CreateIndexForModel index_name ''aws'' ''us-east-1'' ''llama-text-embed-v2''
          [(''text'', ''chunk_text'')],
        Sleep 10, OpenIndex index_name]
     @ map (UpsertRecords index_name ''default'') bs
     @ [DescribeIndexStats index_name]"

text \<open>The index and the namespace that a write or a query addresses.\<close>

definition target_of :: "event \<Rightarrow> (string \<times> string) option" where
  "target_of ev =
     (case ev of
        UpsertRecords ix ns batch \<Rightarrow> Some (ix, ns)
      | QueryIndex ix ns k query \<Rightarrow> Some (ix, ns)
      | _ \<Rightarrow> None)"

text \<open>A library call that returns whatever the operations before it were.\<close>

definition never_raises :: "(event list \<Rightarrow> exn + 'a) \<Rightarrow> bool" where
  "never_raises oracle \<longleftrightarrow> (\<forall>h. \<not> isl (oracle h))"

section \<open>A sample environment\<close>

text \<open>
  Three one-word documents and services that always answer: the index listing returns
  \<open>names\<close>, the splitter returns \<open>chunks\<close>, and a query for \<open>k\<close> results returns the
  first \<open>k\<close> of three hits. The vector service key comes from the
  inherited environment and the model key from the \<^verbatim>\<open>.env\<close> file.
\<close>

definition demo_docs :: "document list" where
  "demo_docs =
     [\<lparr>page_content = ''alpha'', metadata = []\<rparr>,
      \<lparr>page_content = ''beta'', metadata = []\<rparr>,
      \<lparr>page_content = ''gamma'', metadata = []\<rparr>]"

definition demo_hits :: "hit list" where
  "demo_hits =
     [\<lparr>hit_id = ''doc_1'', hit_score = 9 / 10, hit_fields = [(''chunk_text'', ''beta'')]\<rparr>,
      \<lparr>hit_id = ''doc_0'', hit_score = 1 / 2, hit_fields = [(''chunk_text'', ''alpha'')]\<rparr>,
      \<lparr>hit_id = ''doc_2'', hit_score = 1 / 10, hit_fields = [(''chunk_text'', ''gamma'')]\<rparr>]"

definition demo_services :: "string list \<Rightarrow> document list \<Rightarrow> services" where
  "demo_services names chunks =
     \<lparr>environ = (\<lambda>var. if var = ''PINECONE_API_KEY'' then Some ''pk'' else None),
      dotenv = (\<lambda>var. if var = ''GOOGLE_API_KEY'' then Some ''gk'' else None),
      pdf_directory_load = (\<lambda>h. Inr demo_docs),
      split_documents = (\<lambda>h. Inr chunks),
      pinecone_init = (\<lambda>h. Inr ()),
      list_index_names = (\<lambda>h. Inr names),
      delete_index = (\<lambda>h. Inr ()),
      create_index_for_model = (\<lambda>h. Inr ()),
      open_index = (\<lambda>h. Inr ()),
      upsert_records = (\<lambda>h. Inr ()),
      describe_index_stats = (\<lambda>h. Inr ''3 records''),
      query_hits = (\<lambda>h. case last h of
                          QueryIndex ix ns k query \<Rightarrow> Inr (take (nat k) demo_hits)
                        | _ \<Rightarrow> Inr []),
      chat_model_init = (\<lambda>h. Inr ()),
      create_stuff_documents_chain = (\<lambda>h. Inr ()),
      chain_invoke = (\<lambda>h. Inr ''by 2 crore''),
      repr_hits = (\<lambda>hits. ''[...]'')\<rparr>"

text \<open>
  A splitter that rejects an overlap larger than the chunk size and nothing else; it
  returns the documents it is given as the chunks.
\<close>

definition lenient_splitter :: "event list \<Rightarrow> exn + document list" where
  "lenient_splitter h =
     (case last h of
        SplitDocuments chunk_size chunk_overlap docs \<Rightarrow>
          if chunk_size < chunk_overlap
          then Inl (ServiceError ''Got a larger chunk overlap than chunk size'')
          else Inr docs
      | _ \<Rightarrow> Inr [])"




text \<open>
  The sample services with a chain constructor that rejects \<^verbatim>\<open>prompt=None\<close>: the
  library reads \<^verbatim>\<open>prompt.input_variables\<close> before anything else, which raises
  \<^verbatim>\<open>AttributeError\<close> on \<^verbatim>\<open>None\<close>. The splitter returns no chunk.
\<close>

definition prompt_none_services :: "string list \<Rightarrow> services" where
  "prompt_none_services names =
     demo_services names []
       \<lparr>create_stuff_documents_chain :=
          \<lambda>h. Inl (ServiceError ''AttributeError: NoneType object has no attribute input_variables'')\<rparr>"

text \<open>
  Both keys are set and no call of the vector service or of the chat model constructor
  raises.
\<close>

definition services_up :: "services \<Rightarrow> bool" where
  "services_up sv \<longleftrightarrow>
     os_environ sv ''PINECONE_API_KEY'' \<noteq> None \<and> os_environ sv ''GOOGLE_API_KEY'' \<noteq> None \<and>
     never_raises (pinecone_init sv) \<and> never_raises (list_index_names sv) \<and>
     never_raises (delete_index sv) \<and> never_raises (create_index_for_model sv) \<and>
     never_raises (open_index sv) \<and> never_raises (upsert_records sv) \<and>
     never_raises (describe_index_stats sv) \<and> never_raises (chat_model_init sv)"

section \<open>Decimal formatting and the index records\<close>

lemma digit_inj: "a < 10 \<Longrightarrow> b < 10 \<Longrightarrow> ''0123456789'' ! a = ''0123456789'' ! b \<Longrightarrow> a = b"
proof -
  assume a: "a < 10" and b: "b < 10" and eq: "''0123456789'' ! a = ''0123456789'' ! b"
  have d: "distinct ''0123456789''" by simp
  have "a < length ''0123456789''" "b < length ''0123456789''" using a b by simp_all
  with d eq show "a = b" by (simp only: nth_eq_iff_index_eq)
qed

lemma str_nat_nonempty: "str_nat n \<noteq> []"
  by (subst str_nat.simps) simp

lemma str_nat_inj: "str_nat n = str_nat m \<Longrightarrow> n = m"
proof (induction n arbitrary: m rule: str_nat.induct)
  case (1 n)
  show ?case
  proof (cases "n < 10")
    case n: True
    show ?thesis
    proof (cases "m < 10")
      case True
      with n "1.prems" show ?thesis
        by (subst (asm) str_nat.simps, subst (asm) (2) str_nat.simps) (simp add: digit_inj)
    next
      case False
      then have "str_nat m = str_nat (m div 10) @ [''0123456789'' ! (m mod 10)]"
        by (subst str_nat.simps) simp
      moreover have "str_nat n = [''0123456789'' ! n]" using n by (subst str_nat.simps) simp
      ultimately show ?thesis using "1.prems" str_nat_nonempty [of "m div 10"] by simp
    qed
  next
    case n: False
    then have sn: "str_nat n = str_nat (n div 10) @ [''0123456789'' ! (n mod 10)]"
      by (subst str_nat.simps) simp
    show ?thesis
    proof (cases "m < 10")
      case True
      then have "str_nat m = [''0123456789'' ! m]" by (subst str_nat.simps) simp
      with sn show ?thesis using "1.prems" str_nat_nonempty [of "n div 10"] by simp
    next
      case False
      then have sm: "str_nat m = str_nat (m div 10) @ [''0123456789'' ! (m mod 10)]"
        by (subst str_nat.simps) simp
      from sn sm "1.prems" have e1: "str_nat (n div 10) = str_nat (m div 10)"
        and e2: "''0123456789'' ! (n mod 10) = ''0123456789'' ! (m mod 10)" by simp_all
      from "1.IH" [OF n e1] have "n div 10 = m div 10" .
      moreover from e2 have "n mod 10 = m mod 10" by (intro digit_inj) simp_all
      ultimately show ?thesis by (metis div_mult_mod_eq)
    qed
  qed
qed

lemma build_records_length: "length (build_records ds) = length ds"
  by (simp add: build_records_def)

lemma build_records_nth:
  "i < length ds \<Longrightarrow> build_records ds ! i =
     [(''_id'', ''doc_'' @ str_nat i), (''chunk_text'', page_content (ds ! i)), (''category'', ''budget'')]"
  by (simp add: build_records_def nth_enumerate_eq)

lemma build_records_ids:
  "map (\<lambda>r. map_of r ''_id'') (build_records ds) = map (\<lambda>i. Some (''doc_'' @ str_nat i)) [0..<length ds]"
  by (rule nth_equalityI) (simp_all add: build_records_length build_records_nth)

lemma ids_distinct: "distinct (map (\<lambda>i. Some (''doc_'' @ str_nat i)) [0..<n])"
  by (simp add: distinct_map inj_on_def str_nat_inj)

section \<open>The slices of the upsert loop\<close>

lemma concat_batches_from: "concat (batches_from i rs) = drop i rs"
proof (induction i rs rule: batches_from.induct)
  case (1 i rs)
  show ?case
  proof (cases "i < length rs")
    case True
    have "drop i rs = take batch_size (drop i rs) @ drop (i + batch_size) rs"
      using append_take_drop_id [of batch_size "drop i rs"] by (simp add: add.commute)
    with True "1.IH" show ?thesis by (subst batches_from.simps) simp
  next
    case False
    then show ?thesis by (subst batches_from.simps) simp
  qed
qed

lemma length_batches_from: "length (batches_from i rs) = (length rs - i + 49) div 50"
proof (induction i rs rule: batches_from.induct)
  case (1 i rs)
  show ?case
  proof (cases "i < length rs")
    case True
    with "1.IH" have "length (batches_from i rs) = Suc ((length rs - (i + 50) + 49) div 50)"
      by (subst batches_from.simps) (simp add: batch_size_def)
    also have "\<dots> = (length rs - i + 49) div 50"
    proof (cases "i + 50 \<le> length rs")
      case True
      then have "length rs - i + 49 = (length rs - (i + 50) + 49) + 50" by simp
      then show ?thesis by (simp only: div_add_self2)
    next
      case False
      with \<open>i < length rs\<close> have "length rs - (i + 50) = 0" "0 < length rs - i" "length rs - i < 50"
        by simp_all
      then show ?thesis by simp
    qed
    finally show ?thesis .
  next
    case False
    then show ?thesis by (subst batches_from.simps) simp
  qed
qed

lemma batches_from_sizes: "b \<in> set (batches_from i rs) \<Longrightarrow> length b \<le> 50"
proof (induction i rs rule: batches_from.induct)
  case (1 i rs)
  show ?case
  proof (cases "i < length rs")
    case True
    with "1.prems" have "b = take batch_size (drop i rs) \<or> b \<in> set (batches_from (i + batch_size) rs)"
      by (subst (asm) batches_from.simps) simp
    with True "1.IH" show ?thesis by (auto simp: batch_size_def)
  next
    case False
    with "1.prems" show ?thesis by (subst (asm) batches_from.simps) simp
  qed
qed

lemma batches_from_full:
  "Suc j < length (batches_from i rs) \<Longrightarrow> length (batches_from i rs ! j) = 50"
proof (induction i rs arbitrary: j rule: batches_from.induct)
  case (1 i rs)
  show ?case
  proof (cases "i < length rs")
    case True
    then have unf: "batches_from i rs = take batch_size (drop i rs) # batches_from (i + batch_size) rs"
      by (subst batches_from.simps) simp
    show ?thesis
    proof (cases j)
      case 0
      with "1.prems" unf have "batches_from (i + batch_size) rs \<noteq> []" by auto
      then have "i + batch_size < length rs"
        by (subst (asm) batches_from.simps) (simp split: if_splits)
      then show ?thesis using 0 unf by (simp add: batch_size_def)
    next
      case (Suc k)
      with "1.prems" unf have "Suc k < length (batches_from (i + batch_size) rs)" by simp
      from "1.IH" [OF True this] show ?thesis using Suc unf by simp
    qed
  next
    case False
    with "1.prems" show ?thesis by (subst (asm) batches_from.simps) simp
  qed
qed


lemma ceil_div_50: "nat \<lceil>real n / 50\<rceil> = (n + 49) div 50"
  by linarith

section \<open>The index records (C2)\<close>

text \<open>
  Claim C2. For a sequence of \<open>n\<close> chunks the comprehension of \<^verbatim>\<open>setup_pinecone_index\<close>
  builds exactly \<open>n\<close> index records. Their identifiers are \<^verbatim>\<open>doc_0\<close> to
  \<^verbatim>\<open>doc_{n-1}\<close> in the order of the chunks, so they depend on the position only; they
  are pairwise distinct; and the record at position \<open>i\<close> holds the text of chunk \<open>i\<close>
  and the category \<^verbatim>\<open>budget\<close>.
\<close>

theorem build_records_spec:
  "length (build_records ds) = length ds \<and>
   map (\<lambda>r. map_of r ''_id'') (build_records ds)
     = map (\<lambda>i. Some (''doc_'' @ str_nat i)) [0..<length ds] \<and>
   distinct (map (\<lambda>r. map_of r ''_id'') (build_records ds)) \<and>
   (\<forall>i<length ds. build_records ds ! i =
       [(''_id'', ''doc_'' @ str_nat i),
        (''chunk_text'', page_content (ds ! i)),
        (''category'', ''budget'')])"
  using ids_distinct [of "length ds"]
  by (simp add: build_records_length build_records_nth build_records_ids)

text \<open>Eleven one-letter chunks: the identifiers run from \<^verbatim>\<open>doc_0\<close> to \<^verbatim>\<open>doc_10\<close>.\<close>

theorem build_records_spec_witness:
  "length (build_records (map (\<lambda>c. \<lparr>page_content = [c], metadata = []\<rparr>) ''abcdefghijk'')) = 11 \<and>
   map (\<lambda>r. map_of r ''_id'')
       (build_records (map (\<lambda>c. \<lparr>page_content = [c], metadata = []\<rparr>) ''abcdefghijk''))
     = [Some ''doc_0'', Some ''doc_1'', Some ''doc_2'', Some ''doc_3'', Some ''doc_4'',
        Some ''doc_5'', Some ''doc_6'', Some ''doc_7'', Some ''doc_8'', Some ''doc_9'',
        Some ''doc_10''] \<and>
   build_records (map (\<lambda>c. \<lparr>page_content = [c], metadata = []\<rparr>) ''abcdefghijk'') ! 10
     = [(''_id'', ''doc_10''), (''chunk_text'', ''k''), (''category'', ''budget'')]"
proof -
  let ?ds = "map (\<lambda>c. \<lparr>page_content = [c], metadata = []\<rparr>) ''abcdefghijk''"
  have n: "length ?ds = 11" by simp
  have u: "[0..<11] = [0, 1, 2, 3, 4, 5, 6, 7, 8, 9, 10::nat]" by (simp add: upt_rec)
  have i: "(10::nat) < length ?ds" by simp
  from build_records_spec [of ?ds] have
    a: "length (build_records ?ds) = length ?ds" and
    b: "map (\<lambda>r. map_of r ''_id'') (build_records ?ds)
          = map (\<lambda>i. Some (''doc_'' @ str_nat i)) [0..<length ?ds]" and
    c: "\<forall>i<length ?ds. build_records ?ds ! i =
          [(''_id'', ''doc_'' @ str_nat i), (''chunk_text'', page_content (?ds ! i)),
           (''category'', ''budget'')]"
    by blast+
  from c i have c': "build_records ?ds ! 10 =
          [(''_id'', ''doc_'' @ str_nat 10), (''chunk_text'', page_content (?ds ! 10)),
           (''category'', ''budget'')]" by blast
  show ?thesis
    unfolding a b c' n u by (simp add: str_nat.simps)
qed

section \<open>Running the statements\<close>

lemmas prog_defs = bind_prog_def catch_def ret_def raise_def say_def sleep_def call_def emit_def
  environ_getitem_def get_index_def get_chain_def set_index_def set_chain_def

lemma calls_append [simp]: "calls (xs @ ys) = calls xs @ calls ys"
  by (simp add: calls_def)

lemma calls_simps [simp]:
  "calls [] = []"
  "calls (Print msg # es) = calls es"
  "calls (PyPDFDirectoryLoad d # es) = PyPDFDirectoryLoad d # calls es"
  "calls (SplitDocuments cs co ds # es) = SplitDocuments cs co ds # calls es"
  "calls (PineconeInit key # es) = PineconeInit key # calls es"
  "calls (ListIndexes # es) = ListIndexes # calls es"
  "calls (DeleteIndex n1 # es) = DeleteIndex n1 # calls es"
  "calls (Sleep t # es) = Sleep t # calls es"
  "calls (CreateIndexForModel n2 c r m f # es) = CreateIndexForModel n2 c r m f # calls es"
  "calls (OpenIndex n3 # es) = OpenIndex n3 # calls es"
  "calls (UpsertRecords n4 ns bt # es) = UpsertRecords n4 ns bt # calls es"
  "calls (DescribeIndexStats n5 # es) = DescribeIndexStats n5 # calls es"
  "calls (QueryIndex n6 ns6 k q # es) = QueryIndex n6 ns6 k q # calls es"
  "calls (ChatModelInit mo ke te # es) = ChatModelInit mo ke te # calls es"
  "calls (CreateStuffChain l # es) = CreateStuffChain l # calls es"
  "calls (ChainInvoke ch hs q7 # es) = ChainInvoke ch hs q7 # calls es"
  by (simp_all add: calls_def is_call_def)

lemma upsert_loop_eq:
  "upsert_loop sv ix rs i s =
     (fst (loop_out sv ix rs i (calls (trace s))),
      s\<lparr>trace := trace s @ snd (loop_out sv ix rs i (calls (trace s)))\<rparr>)"
proof (induction sv ix rs i s rule: upsert_loop.induct)
  case (1 sv ix rs i s)
  show ?case
  proof (cases "i < length rs")
    case False
    then show ?thesis
      by (subst upsert_loop.simps, subst (1 2) loop_out.simps) simp
  next
    case True
    let ?batch = "take batch_size (drop i rs)"
    let ?es = "[Print (batch_message i ?batch), UpsertRecords ix ''default'' ?batch]"
    let ?h' = "calls (trace s) @ [UpsertRecords ix ''default'' ?batch]"
    let ?s' = "s\<lparr>trace := trace s @ ?es\<rparr>"
    have h': "calls (trace ?s') = ?h'" by simp
    show ?thesis
    proof (cases "upsert_records sv ?h'")
      case (Inl e)
      with True show ?thesis
        by (subst upsert_loop.simps, subst (1 2) loop_out.simps) (simp add: prog_defs Let_def)
    next
      case (Inr u)
      have step: "bind_prog (say (batch_message i ?batch))
                (\<lambda>_. call (upsert_records sv) (UpsertRecords ix ''default'' ?batch)) s = (Inr u, ?s')"
        using Inr by (simp add: prog_defs Let_def)
      have ih: "upsert_loop sv ix rs (i + batch_size) ?s' =
         (fst (loop_out sv ix rs (i + batch_size) ?h'),
          ?s'\<lparr>trace := trace ?s' @ snd (loop_out sv ix rs (i + batch_size) ?h')\<rparr>)"
        using "1.IH" [OF True refl step [symmetric] refl] unfolding h' .
      show ?thesis
        using True Inr
        by (subst upsert_loop.simps, subst (1 2) loop_out.simps)
           (simp add: step ih Let_def split: prod.splits)
    qed
  qed
qed

lemma loop_out_calls:
  "prefix (calls (snd (loop_out sv ix rs i h))) (map (UpsertRecords ix ''default'') (batches_from i rs)) \<and>
   (\<not> isl (fst (loop_out sv ix rs i h)) \<longrightarrow>
      calls (snd (loop_out sv ix rs i h)) = map (UpsertRecords ix ''default'') (batches_from i rs))"
proof (induction sv ix rs i h rule: loop_out.induct)
  case (1 sv ix rs i h)
  show ?case
  proof (cases "i < length rs")
    case False
    then show ?thesis by (subst (1 2 3) loop_out.simps, subst (1 2) batches_from.simps) simp
  next
    case True
    let ?batch = "take batch_size (drop i rs)"
    let ?es = "[Print (batch_message i ?batch), UpsertRecords ix ''default'' ?batch]"
    show ?thesis
    proof (cases "upsert_records sv (h @ [UpsertRecords ix ''default'' ?batch])")
      case (Inl e)
      with True show ?thesis
        by (subst (1 2 3) loop_out.simps, subst (1 2) batches_from.simps) (simp add: Let_def)
    next
      case (Inr u)
      from "1.IH" [OF True refl refl refl Inr] True Inr show ?thesis
        by (subst (1 2 3) loop_out.simps, subst (1 2) batches_from.simps)
           (auto simp: Let_def split: prod.splits)
    qed
  qed
qed

lemma loop_out_prefix [simp]:
  "prefix (calls (snd (loop_out sv ix rs i h))) (map (UpsertRecords ix ''default'') (batches_from i rs) @ zs)"
  using loop_out_calls [of sv ix rs i h] by (simp add: prefix_prefix)

lemma loop_out_done:
  "fst (loop_out sv ix rs i h) = Inr u \<Longrightarrow>
   calls (snd (loop_out sv ix rs i h)) = map (UpsertRecords ix ''default'') (batches_from i rs)"
  using loop_out_calls [of sv ix rs i h] by simp

section \<open>The build phase as a whole\<close>

lemma setup_run:
  assumes "setup_pinecone_index sv documents s = (r, s')"
  shows "trace s' = trace s @ new_events s s' \<and>
   g_index s' = g_index s \<and>
   g_chain s' = g_chain s \<and>
   (case os_environ sv ''PINECONE_API_KEY'' of
      None \<Rightarrow> calls (new_events s s') = [] \<and> isl r
    | Some key \<Rightarrow>
       (case list_index_names sv (calls (trace s) @ [PineconeInit key, ListIndexes]) of
          Inl e \<Rightarrow> prefix (calls (new_events s s')) [PineconeInit key, ListIndexes] \<and> isl r
        | Inr names \<Rightarrow>
            prefix (calls (new_events s s'))
              (reset_plan key names (batches_from 0 (build_records documents)))
            \<and> (case r of Inl e \<Rightarrow> True
                 | Inr ix \<Rightarrow> ix = index_name \<and>
                     calls (new_events s s')
                       = reset_plan key names (batches_from 0 (build_records documents)))))"
  using assms
  apply (simp add: setup_pinecone_index_def setup_try_body_def prog_defs upsert_loop_eq
        new_events_def reset_plan_def Let_def
      del: prefix_snoc
      split: option.splits sum.splits if_splits prod.splits)
  apply (auto simp: loop_out_done simp del: prefix_snoc)
  done

lemma upserted_append: "upserted (xs @ ys) = upserted xs @ upserted ys"
  by (induction xs rule: upserted.induct) simp_all

lemma upserted_calls: "upserted (calls es) = upserted es"
  by (induction es rule: upserted.induct) simp_all

lemma upserted_map: "upserted (map (UpsertRecords ix ns) bs) = bs"
  by (induction bs) simp_all

lemma upserted_prefix: "prefix xs ys \<Longrightarrow> prefix (upserted xs) (upserted ys)"
  by (auto simp: prefix_def upserted_append)

lemma upserted_reset_plan: "upserted (reset_plan key names bs) = bs"
  by (simp add: reset_plan_def upserted_append upserted_map)

lemma setup_upserted:
  assumes "setup_pinecone_index sv documents s = (r, s')"
  shows "prefix (upserted (new_events s s')) (batches_from 0 (build_records documents))"
    and "\<not> isl r \<Longrightarrow> upserted (new_events s s') = batches_from 0 (build_records documents)"
proof -
  let ?bs = "batches_from 0 (build_records documents)"
  note run = setup_run [OF assms]
  show "prefix (upserted (new_events s s')) ?bs"
  proof (cases "os_environ sv ''PINECONE_API_KEY''")
    case None
    with run have "calls (new_events s s') = []" by simp
    then have "upserted (calls (new_events s s')) = []" by simp
    then show ?thesis by (simp add: upserted_calls)
  next
    case (Some key)
    show ?thesis
    proof (cases "list_index_names sv (calls (trace s) @ [PineconeInit key, ListIndexes])")
      case (Inl e)
      with run Some have "prefix (calls (new_events s s')) [PineconeInit key, ListIndexes]" by simp
      from upserted_prefix [OF this] show ?thesis by (simp add: upserted_calls)
    next
      case (Inr names)
      with run Some have "prefix (calls (new_events s s')) (reset_plan key names ?bs)" by simp
      from upserted_prefix [OF this] show ?thesis
        by (simp add: upserted_calls upserted_reset_plan)
    qed
  qed
  show "upserted (new_events s s') = ?bs" if ok: "\<not> isl r"
  proof -
    from ok obtain ix where r: "r = Inr ix" by (cases r) simp_all
    from run ok obtain key where key: "os_environ sv ''PINECONE_API_KEY'' = Some key"
      by (cases "os_environ sv ''PINECONE_API_KEY''") simp_all
    from run ok key obtain names where
      names: "list_index_names sv (calls (trace s) @ [PineconeInit key, ListIndexes]) = Inr names"
      by (cases "list_index_names sv (calls (trace s) @ [PineconeInit key, ListIndexes])") simp_all
    from run key names r have "calls (new_events s s') = reset_plan key names ?bs" by simp
    then have "upserted (calls (new_events s s')) = ?bs" by (simp add: upserted_reset_plan)
    then show ?thesis by (simp add: upserted_calls)
  qed
qed

lemma reset_plan_writes:
  "ev \<in> set (reset_plan key names bs) \<Longrightarrow> target_of ev = None \<or> target_of ev = Some (index_name, ''default'')"
  by (auto simp: reset_plan_def target_of_def split: if_splits)

lemma target_of_call: "target_of ev \<noteq> None \<Longrightarrow> is_call ev"
  by (cases ev) (simp_all add: target_of_def is_call_def)

lemma setup_targets:
  assumes "setup_pinecone_index sv documents s = (r, s')" and "ev \<in> set (new_events s s')"
  shows "target_of ev = None \<or> target_of ev = Some (index_name, ''default'')"
proof (cases "target_of ev = None")
  case True
  then show ?thesis by simp
next
  case False
  then have "is_call ev" by (rule target_of_call)
  with assms(2) have mem: "ev \<in> set (calls (new_events s s'))" by (simp add: calls_def)
  note run = setup_run [OF assms(1)]
  show ?thesis
  proof (cases "os_environ sv ''PINECONE_API_KEY''")
    case None
    with run mem show ?thesis by simp
  next
    case (Some key)
    show ?thesis
    proof (cases "list_index_names sv (calls (trace s) @ [PineconeInit key, ListIndexes])")
      case (Inl e)
      with run Some have "prefix (calls (new_events s s')) [PineconeInit key, ListIndexes]" by simp
      from set_mono_prefix [OF this] mem have "ev = PineconeInit key \<or> ev = ListIndexes" by auto
      then show ?thesis by (auto simp: target_of_def)
    next
      case (Inr names)
      with run Some have "prefix (calls (new_events s s'))
          (reset_plan key names (batches_from 0 (build_records documents)))" by simp
      from set_mono_prefix [OF this] mem show ?thesis by (auto dest: reset_plan_writes)
    qed
  qed
qed

lemma retrieve_query_run:
  "retrieve_query sv query k s =
     (case g_index s of
        None \<Rightarrow> (Inl (NameError ''index''), s)
      | Some ix \<Rightarrow>
          (query_hits sv (calls (trace s) @ [QueryIndex ix ''default'' k query]),
           s\<lparr>trace := trace s @ [QueryIndex ix ''default'' k query]\<rparr>))"
  by (simp add: retrieve_query_def prog_defs Let_def split: option.splits sum.splits)

section \<open>Builds in which no call raises\<close>

lemma demo_setup_calls:
  "fst (setup_pinecone_index (demo_services [''lanchain''] demo_docs) demo_docs init_state)
     = Inr ''lanchain'' \<and>
   calls (new_events init_state
            (snd (setup_pinecone_index (demo_services [''lanchain''] demo_docs) demo_docs init_state)))
     = [PineconeInit ''pk'', ListIndexes, DeleteIndex ''lanchain'', Sleep 10,
        CreateIndexForModel ''lanchain'' ''aws'' ''us-east-1'' ''llama-text-embed-v2''
          [(''text'', ''chunk_text'')],
        Sleep 10, OpenIndex ''lanchain'',
        UpsertRecords ''lanchain'' ''default''
          [[(''_id'', ''doc_0''), (''chunk_text'', ''alpha''), (''category'', ''budget'')],
           [(''_id'', ''doc_1''), (''chunk_text'', ''beta''), (''category'', ''budget'')],
           [(''_id'', ''doc_2''), (''chunk_text'', ''gamma''), (''category'', ''budget'')]],
        DescribeIndexStats ''lanchain'']"
  by (simp add: setup_pinecone_index_def setup_try_body_def prog_defs upsert_loop.simps
        demo_services_def demo_docs_def init_state_def new_events_def os_environ_def
        index_name_def batch_size_def build_records_def str_nat.simps Let_def)


lemma never_raises_Inr: "never_raises oracle \<Longrightarrow> \<exists>x. oracle h = Inr x"
  by (cases "oracle h") (auto simp: never_raises_def dest: spec [of _ h])

lemma loop_out_ok:
  "never_raises (upsert_records sv) \<Longrightarrow> fst (loop_out sv ix rs i h) = Inr ()"
proof (induction sv ix rs i h rule: loop_out.induct)
  case (1 sv ix rs i h)
  show ?case
  proof (cases "i < length rs")
    case False
    then show ?thesis by (subst loop_out.simps) simp
  next
    case True
    let ?batch = "take batch_size (drop i rs)"
    let ?h' = "h @ [UpsertRecords ix ''default'' ?batch]"
    from never_raises_Inr [OF "1.prems"] obtain u where u: "upsert_records sv ?h' = Inr u" by blast
    from "1.IH" [OF True refl refl refl u "1.prems"] True u show ?thesis
      by (subst loop_out.simps) (auto simp: Let_def split: prod.splits)
  qed
qed

lemma setup_succeeds:
  assumes "os_environ sv ''PINECONE_API_KEY'' = Some key"
    and "never_raises (pinecone_init sv)" and "never_raises (list_index_names sv)"
    and "never_raises (delete_index sv)" and "never_raises (create_index_for_model sv)"
    and "never_raises (open_index sv)" and "never_raises (upsert_records sv)"
    and "never_raises (describe_index_stats sv)"
  shows "fst (setup_pinecone_index sv documents s) = Inr index_name"
proof -
  note ok = assms(2-8) [THEN never_raises_Inr]
  obtain u1 where u1: "pinecone_init sv (calls (trace s) @ [PineconeInit key]) = Inr u1"
    using ok(1) by blast
  obtain names where names:
    "list_index_names sv (calls (trace s) @ [PineconeInit key, ListIndexes]) = Inr names"
    using ok(2) by blast
  have d: "\<And>h. \<exists>u. delete_index sv h = Inr u" using ok(3) by blast
  have c: "\<And>h. \<exists>u. create_index_for_model sv h = Inr u" using ok(4) by blast
  have op: "\<And>h. \<exists>u. open_index sv h = Inr u" using ok(5) by blast
  have st: "\<And>h. \<exists>u. describe_index_stats sv h = Inr u" using ok(7) by blast
  have l: "\<And>ix rs i h. fst (loop_out sv ix rs i h) = Inr ()"
    using assms(7) by (rule loop_out_ok)
  show ?thesis
  proof (cases "index_name \<in> set names")
    case True
    let ?h1 = "calls (trace s) @ [PineconeInit key, ListIndexes, DeleteIndex index_name]"
    obtain u2 where u2: "delete_index sv ?h1 = Inr u2" using d by blast
    let ?h2 = "calls (trace s) @ [PineconeInit key, ListIndexes, DeleteIndex index_name, Sleep 10,
      CreateIndexForModel index_name ''aws'' ''us-east-1'' ''llama-text-embed-v2''
          [(''text'', ''chunk_text'')]]"
    obtain u3 where u3: "create_index_for_model sv ?h2 = Inr u3" using c by blast
    let ?h3 = "calls (trace s) @ [PineconeInit key, ListIndexes, DeleteIndex index_name, Sleep 10,
      CreateIndexForModel index_name ''aws'' ''us-east-1'' ''llama-text-embed-v2''
          [(''text'', ''chunk_text'')], Sleep 10, OpenIndex index_name]"
    obtain u4 where u4: "open_index sv ?h3 = Inr u4" using op by blast
    let ?lo = "loop_out sv index_name (build_records documents) 0 ?h3"
    obtain u5 where u5: "describe_index_stats sv
        (?h3 @ calls (snd ?lo) @ [DescribeIndexStats index_name]) = Inr u5"
      using st by blast
    show ?thesis
      using assms(1) u1 names True u2 u3 u4 u5
      by (simp add: setup_pinecone_index_def setup_try_body_def prog_defs upsert_loop_eq l Let_def)
  next
    case False
    let ?h2 = "calls (trace s) @ [PineconeInit key, ListIndexes,
      CreateIndexForModel index_name ''aws'' ''us-east-1'' ''llama-text-embed-v2''
          [(''text'', ''chunk_text'')]]"
    obtain u3 where u3: "create_index_for_model sv ?h2 = Inr u3" using c by blast
    let ?h3 = "calls (trace s) @ [PineconeInit key, ListIndexes,
      CreateIndexForModel index_name ''aws'' ''us-east-1'' ''llama-text-embed-v2''
          [(''text'', ''chunk_text'')], Sleep 10, OpenIndex index_name]"
    obtain u4 where u4: "open_index sv ?h3 = Inr u4" using op by blast
    let ?lo = "loop_out sv index_name (build_records documents) 0 ?h3"
    obtain u5 where u5: "describe_index_stats sv
        (?h3 @ calls (snd ?lo) @ [DescribeIndexStats index_name]) = Inr u5"
      using st by blast
    show ?thesis
      using assms(1) u1 names False u3 u4 u5
      by (simp add: setup_pinecone_index_def setup_try_body_def prog_defs upsert_loop_eq l Let_def)
  qed
qed

lemma demo_never_raises:
  "never_raises (pinecone_init (demo_services names chunks))"
  "never_raises (list_index_names (demo_services names chunks))"
  "never_raises (delete_index (demo_services names chunks))"
  "never_raises (create_index_for_model (demo_services names chunks))"
  "never_raises (open_index (demo_services names chunks))"
  "never_raises (upsert_records (demo_services names chunks))"
  "never_raises (describe_index_stats (demo_services names chunks))"
  "never_raises (query_hits (demo_services names chunks))"
  "never_raises (chat_model_init (demo_services names chunks))"
  "never_raises (create_stuff_documents_chain (demo_services names chunks))"
  "never_raises (chain_invoke (demo_services names chunks))"
  by (simp_all add: never_raises_def demo_services_def split: event.splits)

lemma demo_environ:
  "os_environ (demo_services names chunks) ''PINECONE_API_KEY'' = Some ''pk''"
  "os_environ (demo_services names chunks) ''GOOGLE_API_KEY'' = Some ''gk''"
  by (simp_all add: os_environ_def demo_services_def)

lemma demo_setup_succeeds:
  "fst (setup_pinecone_index (demo_services names chunks) documents s) = Inr index_name"
  by (rule setup_succeeds [OF demo_environ(1) demo_never_raises(1-7)])

section \<open>Upsert batching (C1)\<close>

text \<open>
  Claim C1. The records of \<open>n\<close> chunks are cut into \<open>ceil(n/50)\<close> batches, each of at most
  50 records and every one but the last of exactly 50, whose concatenation is the record
  sequence. The upsert requests of a build are an initial segment of these batches, in
  order (a request that raises ends the build), and all of them when the build returns.
\<close>

theorem upsert_batching:
  "\<exists>bs. length bs = nat \<lceil>real (length documents) / 50\<rceil>
      \<and> (\<forall>b\<in>set bs. length b \<le> 50)
      \<and> (\<forall>j. Suc j < length bs \<longrightarrow> length (bs ! j) = 50)
      \<and> concat bs = build_records documents
      \<and> prefix (upserted (new_events s (snd (setup_pinecone_index sv documents s)))) bs
      \<and> (\<not> isl (fst (setup_pinecone_index sv documents s)) \<longrightarrow>
           upserted (new_events s (snd (setup_pinecone_index sv documents s))) = bs)"
proof (intro exI conjI ballI allI impI)
  let ?bs = "batches_from 0 (build_records documents)"
  have run: "setup_pinecone_index sv documents s
      = (fst (setup_pinecone_index sv documents s), snd (setup_pinecone_index sv documents s))"
    by simp
  show "length ?bs = nat \<lceil>real (length documents) / 50\<rceil>"
    by (simp add: length_batches_from ceil_div_50 build_records_length)
  show "length b \<le> 50" if "b \<in> set ?bs" for b
    using that by (rule batches_from_sizes)
  show "length (?bs ! j) = 50" if "Suc j < length ?bs" for j
    using that by (rule batches_from_full)
  show "concat ?bs = build_records documents"
    by (simp add: concat_batches_from)
  show "prefix (upserted (new_events s (snd (setup_pinecone_index sv documents s)))) ?bs"
    by (rule setup_upserted(1) [OF run])
  show "upserted (new_events s (snd (setup_pinecone_index sv documents s))) = ?bs"
    if "\<not> isl (fst (setup_pinecone_index sv documents s))"
    using that by (rule setup_upserted(2) [OF run])
qed


text \<open>
  With 51 chunks and services that never fail, two batches are written: 50 records, then 1.
\<close>

theorem upsert_batching_witness:
  "\<exists>bs. upserted (new_events init_state
            (snd (setup_pinecone_index (demo_services [] [])
                    (replicate 51 \<lparr>page_content = ''text'', metadata = []\<rparr>) init_state))) = bs
      \<and> length bs = 2 \<and> length (bs ! 0) = 50 \<and> length (bs ! 1) = 1
      \<and> concat bs = build_records (replicate 51 \<lparr>page_content = ''text'', metadata = []\<rparr>)"
proof -
  let ?docs = "replicate 51 \<lparr>page_content = ''text'', metadata = []\<rparr>"
  let ?run = "setup_pinecone_index (demo_services [] []) ?docs init_state"
  have ok: "\<not> isl (fst ?run)" by (simp add: demo_setup_succeeds)
  from upsert_batching [of ?docs init_state "demo_services [] []"] obtain bs where
    len: "length bs = nat \<lceil>real (length ?docs) / 50\<rceil>" and
    full: "\<forall>j. Suc j < length bs \<longrightarrow> length (bs ! j) = 50" and
    cat: "concat bs = build_records ?docs" and
    all: "\<not> isl (fst ?run) \<longrightarrow> upserted (new_events init_state (snd ?run)) = bs"
    by blast
  from len have two: "length bs = 2" by simp
  with full have first: "length (bs ! 0) = 50" by simp
  from two obtain a b where bs: "bs = [a, b]"
    by (cases bs; cases "tl bs"; cases "tl (tl bs)") auto
  from cat have "length (concat bs) = 51" by (simp add: build_records_length)
  with bs first have second: "length (bs ! 1) = 1" by simp
  from all ok have "upserted (new_events init_state (snd ?run)) = bs" by blast
  with two first second cat show ?thesis by blast
qed

section \<open>Order of the reset steps (C7)\<close>

text \<open>
  Claim C7. The operations of every build are an initial segment of one fixed plan, and
  the whole plan when the build returns: the client is created and the indexes are
  listed; the index is deleted, followed by a wait of 10 seconds, exactly when its name
  is in the list returned; then the index is created with the embedding model
  \<^verbatim>\<open>llama-text-embed-v2\<close> and the field map from \<^verbatim>\<open>text\<close> to \<^verbatim>\<open>chunk_text\<close>, followed by
  a wait of 10 seconds; only then the handle is opened and the batches are written.
\<close>

theorem reset_order:
  "let run = setup_pinecone_index sv documents s;
       issued = calls (new_events s (snd run))
   in trace (snd run) = trace s @ new_events s (snd run) \<and>
      (case os_environ sv ''PINECONE_API_KEY'' of
         None \<Rightarrow> issued = []
       | Some key \<Rightarrow>
          (case list_index_names sv (calls (trace s) @ [PineconeInit key, ListIndexes]) of
             Inl e \<Rightarrow> prefix issued [PineconeInit key, ListIndexes]
           | Inr names \<Rightarrow>
              (\<exists>bs. concat bs = build_records documents \<and>
                (let plan =
                   [PineconeInit key, ListIndexes]
                   @ (if index_name \<in> set names then [DeleteIndex index_name, Sleep 10] else [])
                   @ [CreateIndexForModel index_name ''aws'' ''us-east-1'' ''llama-text-embed-v2''
                        [(''text'', ''chunk_text'')],
                      Sleep 10, OpenIndex index_name]
                   @ map (UpsertRecords index_name ''default'') bs
                   @ [DescribeIndexStats index_name]
                 in prefix issued plan \<and> (\<not> isl (fst run) \<longrightarrow> issued = plan)))))"
proof -
  have run: "setup_pinecone_index sv documents s
      = (fst (setup_pinecone_index sv documents s), snd (setup_pinecone_index sv documents s))"
    by simp
  note facts = setup_run [OF run]
  have c: "concat (batches_from 0 (build_records documents)) = build_records documents"
    by (simp add: concat_batches_from)
  show ?thesis
    unfolding Let_def
  proof (intro conjI)
    show "trace (snd (setup_pinecone_index sv documents s)) =
      trace s @ new_events s (snd (setup_pinecone_index sv documents s))"
      using facts by simp
  next
    show "case os_environ sv ''PINECONE_API_KEY'' of
         None \<Rightarrow> calls (new_events s (snd (setup_pinecone_index sv documents s))) = []
       | Some key \<Rightarrow>
          (case list_index_names sv (calls (trace s) @ [PineconeInit key, ListIndexes]) of
             Inl e \<Rightarrow> prefix (calls (new_events s (snd (setup_pinecone_index sv documents s))))
                        [PineconeInit key, ListIndexes]
           | Inr names \<Rightarrow>
              (\<exists>bs. concat bs = build_records documents \<and>
                   prefix (calls (new_events s (snd (setup_pinecone_index sv documents s))))
                    ([PineconeInit key, ListIndexes]
                   @ (if index_name \<in> set names then [DeleteIndex index_name, Sleep 10] else [])
                   @ [CreateIndexForModel index_name ''aws'' ''us-east-1'' ''llama-text-embed-v2''
                        [(''text'', ''chunk_text'')],
                      Sleep 10, OpenIndex index_name]
                   @ map (UpsertRecords index_name ''default'') bs
                   @ [DescribeIndexStats index_name]) \<and>
                  (\<not> isl (fst (setup_pinecone_index sv documents s)) \<longrightarrow>
                   calls (new_events s (snd (setup_pinecone_index sv documents s))) =
                   [PineconeInit key, ListIndexes]
                   @ (if index_name \<in> set names then [DeleteIndex index_name, Sleep 10] else [])
                   @ [CreateIndexForModel index_name ''aws'' ''us-east-1'' ''llama-text-embed-v2''
                        [(''text'', ''chunk_text'')],
                      Sleep 10, OpenIndex index_name]
                   @ map (UpsertRecords index_name ''default'') bs
                   @ [DescribeIndexStats index_name])))"
    proof (cases "os_environ sv ''PINECONE_API_KEY''")
      case None
      with facts show ?thesis by simp
    next
      case (Some key)
      show ?thesis
      proof (cases "list_index_names sv (calls (trace s) @ [PineconeInit key, ListIndexes])")
        case (Inl e)
        with facts Some show ?thesis by simp
      next
        case (Inr names)
        from facts Some Inr have
          p: "prefix (calls (new_events s (snd (setup_pinecone_index sv documents s))))
               (reset_plan key names (batches_from 0 (build_records documents)))" and
          q: "\<not> isl (fst (setup_pinecone_index sv documents s)) \<Longrightarrow>
              calls (new_events s (snd (setup_pinecone_index sv documents s)))
               = reset_plan key names (batches_from 0 (build_records documents))"
          by (simp_all split: sum.splits)
        show ?thesis
          unfolding Some Inr option.case sum.case
          by (rule exI [of _ "batches_from 0 (build_records documents)"])
             (use c p q in \<open>simp add: reset_plan_def del: prefix_snoc\<close>)
      qed
    qed
  qed
qed


text \<open>
  Two complete builds of the three sample chunks: when the listing contains
  \<^verbatim>\<open>lanchain\<close> the index is deleted first, otherwise it is created at once.
\<close>

theorem reset_order_witness:
  "(\<exists>bs. concat bs = build_records demo_docs \<and>
      calls (new_events init_state
              (snd (setup_pinecone_index (demo_services [''other'', ''lanchain''] []) demo_docs init_state)))
        = [PineconeInit ''pk'', ListIndexes, DeleteIndex ''lanchain'', Sleep 10,
           CreateIndexForModel ''lanchain'' ''aws'' ''us-east-1'' ''llama-text-embed-v2''
             [(''text'', ''chunk_text'')],
           Sleep 10, OpenIndex ''lanchain'']
          @ map (UpsertRecords ''lanchain'' ''default'') bs
          @ [DescribeIndexStats ''lanchain'']) \<and>
   (\<exists>bs. concat bs = build_records demo_docs \<and>
      calls (new_events init_state
              (snd (setup_pinecone_index (demo_services [''other''] []) demo_docs init_state)))
        = [PineconeInit ''pk'', ListIndexes,
           CreateIndexForModel ''lanchain'' ''aws'' ''us-east-1'' ''llama-text-embed-v2''
             [(''text'', ''chunk_text'')],
           Sleep 10, OpenIndex ''lanchain'']
          @ map (UpsertRecords ''lanchain'' ''default'') bs
          @ [DescribeIndexStats ''lanchain''])"
proof -
  have ok: "\<And>names. \<not> isl (fst (setup_pinecone_index (demo_services names []) demo_docs init_state))"
    by (simp add: demo_setup_succeeds)
  have l: "\<And>names h. list_index_names (demo_services names []) h = Inr names"
    by (simp add: demo_services_def)
  show ?thesis
    using reset_order [of "demo_services [''other'', ''lanchain''] []" demo_docs init_state]
      reset_order [of "demo_services [''other''] []" demo_docs init_state]
    by (auto simp: Let_def demo_environ l ok index_name_def simp del: prefix_snoc)
qed

section \<open>One namespace for writes and reads (C8)\<close>

text \<open>
  Claim C8. Every upsert request of \<^verbatim>\<open>setup_pinecone_index\<close> goes to the namespace
  \<^verbatim>\<open>default\<close> of the index \<^verbatim>\<open>lanchain\<close>, and every query of \<^verbatim>\<open>retrieve_query\<close> goes to
  the namespace \<^verbatim>\<open>default\<close> of the index bound to the global \<^verbatim>\<open>index\<close>.
\<close>

theorem same_namespace:
  "(\<forall>ev \<in> set (new_events s (snd (setup_pinecone_index sv documents s))).
      \<forall>ix ns batch. ev = UpsertRecords ix ns batch \<longrightarrow> ix = index_name \<and> ns = ''default'') \<and>
   (\<forall>ev \<in> set (new_events s (snd (retrieve_query sv query k s))).
      \<forall>ix ns k' q. ev = QueryIndex ix ns k' q \<longrightarrow> g_index s = Some ix \<and> ns = ''default'')"
proof (intro conjI ballI allI impI)
  fix ev ix ns batch
  assume mem: "ev \<in> set (new_events s (snd (setup_pinecone_index sv documents s)))"
    and ev: "ev = UpsertRecords ix ns batch"
  have run: "setup_pinecone_index sv documents s
      = (fst (setup_pinecone_index sv documents s), snd (setup_pinecone_index sv documents s))"
    by simp
  from setup_targets [OF run mem] ev show "ix = index_name" "ns = ''default''"
    by (simp_all add: target_of_def)
next
  fix ev ix ns k' q
  assume mem: "ev \<in> set (new_events s (snd (retrieve_query sv query k s)))"
    and ev: "ev = QueryIndex ix ns k' q"
  from mem ev show "g_index s = Some ix" "ns = ''default''"
    by (auto simp: retrieve_query_run new_events_def split: option.splits)
qed


text \<open>A build that writes one batch, and a query once the global is bound.\<close>

theorem same_namespace_witness:
  "(\<exists>ev \<in> set (new_events init_state
                   (snd (setup_pinecone_index (demo_services [''lanchain''] demo_docs) demo_docs init_state))).
      \<exists>batch. ev = UpsertRecords index_name ''default'' batch) \<and>
   (\<exists>ev \<in> set (new_events (init_state\<lparr>g_index := Some ''lanchain''\<rparr>)
                   (snd (retrieve_query (demo_services [] []) ''how much?'' 2
                           (init_state\<lparr>g_index := Some ''lanchain''\<rparr>)))).
      \<exists>k q. ev = QueryIndex ''lanchain'' ''default'' k q)"
proof -
  let ?sv = "demo_services [''lanchain''] demo_docs"
  let ?s1 = "init_state\<lparr>g_index := Some ''lanchain''\<rparr>"
  let ?new = "new_events init_state (snd (setup_pinecone_index ?sv demo_docs init_state))"
  let ?q = "new_events ?s1 (snd (retrieve_query (demo_services [] []) ''how much?'' 2 ?s1))"
  let ?batch = "[[(''_id'', ''doc_0''), (''chunk_text'', ''alpha''), (''category'', ''budget'')],
           [(''_id'', ''doc_1''), (''chunk_text'', ''beta''), (''category'', ''budget'')],
           [(''_id'', ''doc_2''), (''chunk_text'', ''gamma''), (''category'', ''budget'')]]"
  have "UpsertRecords ''lanchain'' ''default'' ?batch \<in> set (calls ?new)"
    by (simp add: demo_setup_calls)
  then have w: "UpsertRecords ''lanchain'' ''default'' ?batch \<in> set ?new"
    by (simp add: calls_def)
  have r: "QueryIndex ''lanchain'' ''default'' 2 ''how much?'' \<in> set ?q"
    by (simp add: retrieve_query_run new_events_def init_state_def)
  have a: "\<forall>ev \<in> set ?new. \<forall>ix ns batch.
      ev = UpsertRecords ix ns batch \<longrightarrow> ix = index_name \<and> ns = ''default''"
    using same_namespace [of init_state ?sv demo_docs] by (rule conjunct1)
  have b: "\<forall>ev \<in> set ?q. \<forall>ix ns k' q.
      ev = QueryIndex ix ns k' q \<longrightarrow> g_index ?s1 = Some ix \<and> ns = ''default''"
    using same_namespace [of ?s1 "demo_services [] []" demo_docs "''how much?''" 2]
    by (rule conjunct2)
  from bspec [OF a w] have n: "''lanchain'' = index_name" by simp
  from bspec [OF b r] have "g_index ?s1 = Some ''lanchain''" by simp
  from w n have "\<exists>ev \<in> set ?new. \<exists>batch. ev = UpsertRecords index_name ''default'' batch"
    by (intro bexI [of _ "UpsertRecords ''lanchain'' ''default'' ?batch"] exI [of _ ?batch]) simp_all
  moreover from r have "\<exists>ev \<in> set ?q. \<exists>k q. ev = QueryIndex ''lanchain'' ''default'' k q"
    by (intro bexI [of _ "QueryIndex ''lanchain'' ''default'' 2 ''how much?''"] exI) simp_all
  ultimately show ?thesis by (rule conjI)
qed


section \<open>The loader recovers from failures (C6)\<close>

lemma read_doc_run:
  "read_doc sv directory s =
     (case pdf_directory_load sv (calls (trace s) @ [PyPDFDirectoryLoad directory]) of
        Inl e \<Rightarrow>
          (Inr [], s\<lparr>trace := trace s @
             [PyPDFDirectoryLoad directory,
              Print (''Error loading documents from '' @ directory @ '': '' @ str_exn e)]\<rparr>)
      | Inr documents \<Rightarrow>
          (Inr documents, s\<lparr>trace := trace s @
             (if documents = []
              then [PyPDFDirectoryLoad directory,
                    Print (''No PDF files found in directory: '' @ directory)]
              else [PyPDFDirectoryLoad directory])\<rparr>))"
  by (simp add: read_doc_def prog_defs Let_def split: sum.splits)

text \<open>
  Claim C6. \<^verbatim>\<open>read_doc\<close> never raises: for every directory and every behaviour of the
  loader it returns a document list. When loading raises \<open>e\<close>, it prints the report
  \<^verbatim>\<open>Error loading documents from <directory>: <e>\<close> and returns the empty list.
\<close>

theorem read_doc_recovers:
  "(\<exists>documents. fst (read_doc sv directory s) = Inr documents) \<and>
   (\<forall>e. pdf_directory_load sv (calls (trace s) @ [PyPDFDirectoryLoad directory]) = Inl e \<longrightarrow>
      read_doc sv directory s =
        (Inr [], s\<lparr>trace := trace s @
           [PyPDFDirectoryLoad directory,
            Print (''Error loading documents from '' @ directory @ '': '' @ str_exn e)]\<rparr>))"
  by (simp add: read_doc_run split: sum.splits)

text \<open>A loader that fails on a missing directory.\<close>

theorem read_doc_recovers_witness:
  "read_doc (demo_services [] [] \<lparr>pdf_directory_load := \<lambda>h. Inl (ServiceError ''No such directory'')\<rparr>)
      ''missing'' init_state =
     (Inr [], init_state\<lparr>trace :=
        [PyPDFDirectoryLoad ''missing'',
         Print ''Error loading documents from missing: No such directory'']\<rparr>)"
  using read_doc_recovers [of "demo_services [] [] \<lparr>pdf_directory_load := \<lambda>h. Inl (ServiceError ''No such directory'')\<rparr>"
      "''missing''" init_state]
  by (simp add: init_state_def)

section \<open>The chunker does not validate its parameters (C3)\<close>

lemma chunk_data_run:
  "chunk_data sv docs chunk_size chunk_overlap s =
     (if docs = [] then (Inr [], s\<lparr>trace := trace s @ [Print ''No documents to chunk.'']\<rparr>)
      else (split_documents sv (calls (trace s) @ [SplitDocuments chunk_size chunk_overlap docs]),
            s\<lparr>trace := trace s @ [SplitDocuments chunk_size chunk_overlap docs]\<rparr>))"
  by (simp add: chunk_data_def prog_defs Let_def)

text \<open>
  Claim C3, as stated, says that \<^verbatim>\<open>chunk_data\<close> raises on a non-empty document list
  whenever the overlap is at least the chunk size. With a splitter that rejects only an
  overlap larger than the chunk size, chunk size 10 and overlap 10 give chunks, not an error.
\<close>

theorem chunk_data_equal_overlap:
  "chunk_data (demo_services [] [] \<lparr>split_documents := lenient_splitter\<rparr>) demo_docs 10 10 init_state
     = (Inr demo_docs, init_state\<lparr>trace := [SplitDocuments 10 10 demo_docs]\<rparr>)"
  by (simp add: chunk_data_run lenient_splitter_def demo_docs_def init_state_def)

text \<open>
  Claim C3, amended. On a non-empty document list \<^verbatim>\<open>chunk_data\<close> checks nothing itself:
  for every chunk size and overlap it hands both, with the documents, to the splitter and
  returns the outcome of the splitter unchanged, an error exactly when the splitter raises.
\<close>

theorem chunk_data_delegates:
  "docs \<noteq> [] \<Longrightarrow>
   chunk_data sv docs chunk_size chunk_overlap s =
     (split_documents sv (calls (trace s) @ [SplitDocuments chunk_size chunk_overlap docs]),
      s\<lparr>trace := trace s @ [SplitDocuments chunk_size chunk_overlap docs]\<rparr>)"
  by (simp add: chunk_data_run)

text \<open>With the same splitter, chunk size 10 and overlap 20 raise: the error is the splitter's.\<close>

theorem chunk_data_delegates_witness:
  "demo_docs \<noteq> [] \<and>
   chunk_data (demo_services [] [] \<lparr>split_documents := lenient_splitter\<rparr>) demo_docs 10 20 init_state
     = (Inl (ServiceError ''Got a larger chunk overlap than chunk size''),
        init_state\<lparr>trace := [SplitDocuments 10 20 demo_docs]\<rparr>)"
proof -
  have ne: "demo_docs \<noteq> []" by (simp add: demo_docs_def)
  from chunk_data_delegates [OF ne, of "demo_services [] [] \<lparr>split_documents := lenient_splitter\<rparr>" 10 20 init_state]
    ne show ?thesis
    by (simp add: lenient_splitter_def init_state_def)
qed

section \<open>The answering path (C9)\<close>





section \<open>No documents, no index operation (C4)\<close>

lemma str_nat_0: "str_nat 0 = ''0''"
  by (simp add: str_nat.simps)

text \<open>
  Claim C4. When the loader returns no documents, or raises (and \<^verbatim>\<open>read_doc\<close> turns
  that into the empty list), \<^verbatim>\<open>main\<close> prints
  \<^verbatim>\<open>No documents found. Please check the directory path.\<close> and returns. The load is
  the only operation of the run: nothing is deleted, created, written, queried or generated.
\<close>

theorem main_no_documents:
  "(pdf_directory_load sv (calls (trace s) @ [PyPDFDirectoryLoad DOCUMENTS_DIRECTORY]) = Inr [] \<longrightarrow>
      main sv s = (Inr (), s\<lparr>trace := trace s @
        [Print ''Loading documents...'',
         PyPDFDirectoryLoad DOCUMENTS_DIRECTORY,
         Print (''No PDF files found in directory: '' @ DOCUMENTS_DIRECTORY),
         Print ''Number of documents loaded: 0'',
         Print ''No documents found. Please check the directory path.'']\<rparr>)) \<and>
   (\<forall>e. pdf_directory_load sv (calls (trace s) @ [PyPDFDirectoryLoad DOCUMENTS_DIRECTORY]) = Inl e \<longrightarrow>
      main sv s = (Inr (), s\<lparr>trace := trace s @
        [Print ''Loading documents...'',
         PyPDFDirectoryLoad DOCUMENTS_DIRECTORY,
         Print (''Error loading documents from '' @ DOCUMENTS_DIRECTORY @ '': '' @ str_exn e),
         Print ''Number of documents loaded: 0'',
         Print ''No documents found. Please check the directory path.'']\<rparr>)) \<and>
   (fst (read_doc sv DOCUMENTS_DIRECTORY (s\<lparr>trace := trace s @ [Print ''Loading documents...'']\<rparr>)) = Inr [] \<longrightarrow>
      fst (main sv s) = Inr () \<and>
      calls (new_events s (snd (main sv s))) = [PyPDFDirectoryLoad DOCUMENTS_DIRECTORY])"
  by (simp add: main_def read_doc_run prog_defs new_events_def str_nat_0 Let_def
      split: sum.splits)

text \<open>A directory without PDF files, and a directory that does not exist.\<close>

theorem main_no_documents_witness:
  "main (demo_services [] [] \<lparr>pdf_directory_load := \<lambda>h. Inr []\<rparr>) init_state =
     (Inr (), init_state\<lparr>trace :=
        [Print ''Loading documents...'',
         PyPDFDirectoryLoad DOCUMENTS_DIRECTORY,
         Print (''No PDF files found in directory: '' @ DOCUMENTS_DIRECTORY),
         Print ''Number of documents loaded: 0'',
         Print ''No documents found. Please check the directory path.'']\<rparr>) \<and>
   calls (new_events init_state
      (snd (main (demo_services [] [] \<lparr>pdf_directory_load := \<lambda>h. Inr []\<rparr>) init_state)))
     = [PyPDFDirectoryLoad DOCUMENTS_DIRECTORY] \<and>
   main (demo_services [] [] \<lparr>pdf_directory_load := \<lambda>h. Inl (ServiceError ''No such directory'')\<rparr>)
      init_state =
     (Inr (), init_state\<lparr>trace :=
        [Print ''Loading documents...'',
         PyPDFDirectoryLoad DOCUMENTS_DIRECTORY,
         Print (''Error loading documents from '' @ DOCUMENTS_DIRECTORY @ '': No such directory''),
         Print ''Number of documents loaded: 0'',
         Print ''No documents found. Please check the directory path.'']\<rparr>)"
proof -
  let ?sv = "demo_services [] [] \<lparr>pdf_directory_load := \<lambda>h. Inr []\<rparr>"
  let ?bad = "demo_services [] [] \<lparr>pdf_directory_load := \<lambda>h. Inl (ServiceError ''No such directory'')\<rparr>"
  have l: "pdf_directory_load ?sv (calls (trace init_state) @ [PyPDFDirectoryLoad DOCUMENTS_DIRECTORY]) = Inr []"
    by simp
  have r: "fst (read_doc ?sv DOCUMENTS_DIRECTORY
      (init_state\<lparr>trace := trace init_state @ [Print ''Loading documents...'']\<rparr>)) = Inr []"
    by (simp add: read_doc_run)
  have b: "pdf_directory_load ?bad (calls (trace init_state) @ [PyPDFDirectoryLoad DOCUMENTS_DIRECTORY])
      = Inl (ServiceError ''No such directory'')"
    by simp
  from main_no_documents [of ?sv init_state] l r
  have one: "main ?sv init_state =
     (Inr (), init_state\<lparr>trace :=
        [Print ''Loading documents...'',
         PyPDFDirectoryLoad DOCUMENTS_DIRECTORY,
         Print (''No PDF files found in directory: '' @ DOCUMENTS_DIRECTORY),
         Print ''Number of documents loaded: 0'',
         Print ''No documents found. Please check the directory path.'']\<rparr>) \<and>
   calls (new_events init_state (snd (main ?sv init_state))) = [PyPDFDirectoryLoad DOCUMENTS_DIRECTORY]"
    by (simp add: init_state_def new_events_def)
  from main_no_documents [of ?bad init_state] b
  have two: "main ?bad init_state =
     (Inr (), init_state\<lparr>trace :=
        [Print ''Loading documents...'',
         PyPDFDirectoryLoad DOCUMENTS_DIRECTORY,
         Print (''Error loading documents from '' @ DOCUMENTS_DIRECTORY @ '': No such directory''),
         Print ''Number of documents loaded: 0'',
         Print ''No documents found. Please check the directory path.'']\<rparr>)"
    by (simp add: init_state_def)
  show ?thesis
    by (rule conjI [OF conjunct1 [OF one] conjI [OF conjunct2 [OF one] two]])
qed

section \<open>The check of the credentials (C5)\<close>

text \<open>
  Claim C5. A credential is missing when \<^verbatim>\<open>os.environ\<close> has no value or the empty
  value for it. If one or both are missing, the script prints a line listing exactly
  the missing names (\<^verbatim>\<open>GOOGLE_API_KEY\<close> before \<^verbatim>\<open>PINECONE_API_KEY\<close>), a hint, and exits
  with code 1 having done nothing else; if both are set it runs \<^verbatim>\<open>main\<close>.
\<close>

theorem credentials_checked:
  "(let no_google = (os_environ sv ''GOOGLE_API_KEY'' = None \<or> os_environ sv ''GOOGLE_API_KEY'' = Some []);
        no_pinecone = (os_environ sv ''PINECONE_API_KEY'' = None \<or> os_environ sv ''PINECONE_API_KEY'' = Some [])
    in (no_google \<and> no_pinecone \<longrightarrow>
          script sv = (SystemExit 1, init_state\<lparr>trace :=
            [Print ''Error: Missing required environment variables: GOOGLE_API_KEY, PINECONE_API_KEY'',
             Print ''Please create a .env file with your API keys.'']\<rparr>)) \<and>
       (no_google \<and> \<not> no_pinecone \<longrightarrow>
          script sv = (SystemExit 1, init_state\<lparr>trace :=
            [Print ''Error: Missing required environment variables: GOOGLE_API_KEY'',
             Print ''Please create a .env file with your API keys.'']\<rparr>)) \<and>
       (\<not> no_google \<and> no_pinecone \<longrightarrow>
          script sv = (SystemExit 1, init_state\<lparr>trace :=
            [Print ''Error: Missing required environment variables: PINECONE_API_KEY'',
             Print ''Please create a .env file with your API keys.'']\<rparr>)) \<and>
       (\<not> no_google \<and> \<not> no_pinecone \<longrightarrow>
          script sv = (case main sv init_state of
                         (Inl e, s) \<Rightarrow> (Uncaught e, s)
                       | (Inr u, s) \<Rightarrow> (Completed, s))))"
proof -
  define no_google where
    "no_google \<longleftrightarrow> os_environ sv ''GOOGLE_API_KEY'' = None \<or> os_environ sv ''GOOGLE_API_KEY'' = Some []"
  define no_pinecone where
    "no_pinecone \<longleftrightarrow> os_environ sv ''PINECONE_API_KEY'' = None \<or> os_environ sv ''PINECONE_API_KEY'' = Some []"
  have g: "not_set sv ''GOOGLE_API_KEY'' = no_google"
    by (simp add: not_set_def no_google_def split: option.splits)
  have p: "not_set sv ''PINECONE_API_KEY'' = no_pinecone"
    by (simp add: not_set_def no_pinecone_def split: option.splits)
  have m: "missing_vars sv =
      (if no_google then [''GOOGLE_API_KEY''] else []) @ (if no_pinecone then [''PINECONE_API_KEY''] else [])"
    by (simp add: missing_vars_def required_vars_def g p)
  have "(no_google \<and> no_pinecone \<longrightarrow>
          script sv = (SystemExit 1, init_state\<lparr>trace :=
            [Print ''Error: Missing required environment variables: GOOGLE_API_KEY, PINECONE_API_KEY'',
             Print ''Please create a .env file with your API keys.'']\<rparr>)) \<and>
       (no_google \<and> \<not> no_pinecone \<longrightarrow>
          script sv = (SystemExit 1, init_state\<lparr>trace :=
            [Print ''Error: Missing required environment variables: GOOGLE_API_KEY'',
             Print ''Please create a .env file with your API keys.'']\<rparr>)) \<and>
       (\<not> no_google \<and> no_pinecone \<longrightarrow>
          script sv = (SystemExit 1, init_state\<lparr>trace :=
            [Print ''Error: Missing required environment variables: PINECONE_API_KEY'',
             Print ''Please create a .env file with your API keys.'']\<rparr>)) \<and>
       (\<not> no_google \<and> \<not> no_pinecone \<longrightarrow>
          script sv = (case main sv init_state of
                         (Inl e, s) \<Rightarrow> (Uncaught e, s)
                       | (Inr u, s) \<Rightarrow> (Completed, s)))"
    by (cases no_google; cases no_pinecone)
       (simp_all add: script_def m prog_defs init_state_def)
  then show ?thesis
    unfolding Let_def no_google_def no_pinecone_def .
qed

text \<open>
  No credential at all; an empty vector-service key, the model key coming from the
  \<^verbatim>\<open>.env\<close> file; no model key; both credentials set, with an empty document directory.
\<close>

theorem credentials_checked_witness:
  "script (demo_services [] [] \<lparr>environ := \<lambda>var. None, dotenv := \<lambda>var. None\<rparr>) =
     (SystemExit 1, init_state\<lparr>trace :=
        [Print ''Error: Missing required environment variables: GOOGLE_API_KEY, PINECONE_API_KEY'',
         Print ''Please create a .env file with your API keys.'']\<rparr>) \<and>
   script (demo_services [] [] \<lparr>environ := \<lambda>var. if var = ''PINECONE_API_KEY'' then Some [] else None\<rparr>) =
     (SystemExit 1, init_state\<lparr>trace :=
        [Print ''Error: Missing required environment variables: PINECONE_API_KEY'',
         Print ''Please create a .env file with your API keys.'']\<rparr>) \<and>
   script (demo_services [] [] \<lparr>dotenv := \<lambda>var. None\<rparr>) =
     (SystemExit 1, init_state\<lparr>trace :=
        [Print ''Error: Missing required environment variables: GOOGLE_API_KEY'',
         Print ''Please create a .env file with your API keys.'']\<rparr>) \<and>
   script (demo_services [] [] \<lparr>pdf_directory_load := \<lambda>h. Inr []\<rparr>) =
     (Completed, init_state\<lparr>trace :=
        [Print ''Loading documents...'',
         PyPDFDirectoryLoad DOCUMENTS_DIRECTORY,
         Print (''No PDF files found in directory: '' @ DOCUMENTS_DIRECTORY),
         Print ''Number of documents loaded: 0'',
         Print ''No documents found. Please check the directory path.'']\<rparr>)"
proof -
  let ?none = "demo_services [] [] \<lparr>environ := \<lambda>var. None, dotenv := \<lambda>var. None\<rparr>"
  let ?empty = "demo_services [] [] \<lparr>environ := \<lambda>var. if var = ''PINECONE_API_KEY'' then Some [] else None\<rparr>"
  let ?both = "demo_services [] [] \<lparr>pdf_directory_load := \<lambda>h. Inr []\<rparr>"
  have a: "script ?none =
     (SystemExit 1, init_state\<lparr>trace :=
        [Print ''Error: Missing required environment variables: GOOGLE_API_KEY, PINECONE_API_KEY'',
         Print ''Please create a .env file with your API keys.'']\<rparr>)"
    using credentials_checked [of ?none] by (simp add: os_environ_def Let_def)
  have b: "script ?empty =
     (SystemExit 1, init_state\<lparr>trace :=
        [Print ''Error: Missing required environment variables: PINECONE_API_KEY'',
         Print ''Please create a .env file with your API keys.'']\<rparr>)"
    using credentials_checked [of ?empty] by (simp add: os_environ_def demo_services_def Let_def)
  have m: "main ?both init_state =
     (Inr (), init_state\<lparr>trace :=
        [Print ''Loading documents...'',
         PyPDFDirectoryLoad DOCUMENTS_DIRECTORY,
         Print (''No PDF files found in directory: '' @ DOCUMENTS_DIRECTORY),
         Print ''Number of documents loaded: 0'',
         Print ''No documents found. Please check the directory path.'']\<rparr>)"
    by (simp add: main_def read_doc_run prog_defs str_nat_0 init_state_def)
  have e: "os_environ ?both ''GOOGLE_API_KEY'' = Some ''gk''"
    "os_environ ?both ''PINECONE_API_KEY'' = Some ''pk''"
    by (simp_all add: os_environ_def demo_services_def)
  have c: "script ?both =
     (Completed, init_state\<lparr>trace :=
        [Print ''Loading documents...'',
         PyPDFDirectoryLoad DOCUMENTS_DIRECTORY,
         Print (''No PDF files found in directory: '' @ DOCUMENTS_DIRECTORY),
         Print ''Number of documents loaded: 0'',
         Print ''No documents found. Please check the directory path.'']\<rparr>)"
    using credentials_checked [of ?both] by (simp add: e Let_def m)
  have d: "script (demo_services [] [] \<lparr>dotenv := \<lambda>var. None\<rparr>) =
     (SystemExit 1, init_state\<lparr>trace :=
        [Print ''Error: Missing required environment variables: GOOGLE_API_KEY'',
         Print ''Please create a .env file with your API keys.'']\<rparr>)"
    using credentials_checked [of "demo_services [] [] \<lparr>dotenv := \<lambda>var. None\<rparr>"]
    by (simp add: os_environ_def demo_services_def Let_def)
  from a b d c show ?thesis by (intro conjI)
qed

section \<open>An empty chunk list does not stop the run (C10)\<close>

lemma never_raises_unit: "never_raises oracle \<Longrightarrow> oracle h = Inr ()"
  using never_raises_Inr [of "oracle" h] by simp

lemma prompt_none_facts:
  "os_environ (prompt_none_services names) ''PINECONE_API_KEY'' = Some ''pk''"
  "os_environ (prompt_none_services names) ''GOOGLE_API_KEY'' = Some ''gk''"
  "services_up (prompt_none_services names)"
  "create_stuff_documents_chain (prompt_none_services names) h =
     Inl (ServiceError ''AttributeError: NoneType object has no attribute input_variables'')"
  "pdf_directory_load (prompt_none_services names) h = Inr demo_docs"
  "split_documents (prompt_none_services names) h = Inr []"
  "list_index_names (prompt_none_services names) h = Inr names"
  by (simp_all add: prompt_none_services_def demo_services_def os_environ_def services_up_def
        never_raises_def)

text \<open>
  Claim C10 says that with documents loaded and no chunk the run does not stop early:
  the index is reset, no batch is written, and the run proceeds to the query and the
  generation. The first part holds: \<^verbatim>\<open>setup_pinecone_index\<close> is called with the empty
  list, deletes the index when it is listed, creates it and writes nothing. But line 191
  builds the chain with \<^verbatim>\<open>prompt=None\<close>; when the chain constructor raises, as the
  library does on that argument, \<^verbatim>\<open>main\<close> ends with this exception right after the
  constructor call, and neither a query nor a generation call is made.
\<close>

theorem empty_chunks_stop_at_chain:
  assumes loader: "pdf_directory_load sv (calls (trace s) @ [PyPDFDirectoryLoad DOCUMENTS_DIRECTORY])
                     = Inr docs"
    and ne: "docs \<noteq> []"
    and splitter: "split_documents sv (calls (trace s) @
                     [PyPDFDirectoryLoad DOCUMENTS_DIRECTORY, SplitDocuments 800 50 docs]) = Inr []"
    and up: "services_up sv"
    and chain: "\<And>h. create_stuff_documents_chain sv h = Inl e"
  shows "\<exists>pk gk names.
     os_environ sv ''PINECONE_API_KEY'' = Some pk \<and>
     os_environ sv ''GOOGLE_API_KEY'' = Some gk \<and>
     list_index_names sv (calls (trace s) @
        [PyPDFDirectoryLoad DOCUMENTS_DIRECTORY, SplitDocuments 800 50 docs,
         PineconeInit pk, ListIndexes]) = Inr names \<and>
     fst (main sv s) = Inl e \<and>
     calls (new_events s (snd (main sv s))) =
       [PyPDFDirectoryLoad DOCUMENTS_DIRECTORY, SplitDocuments 800 50 docs,
        PineconeInit pk, ListIndexes]
       @ (if index_name \<in> set names then [DeleteIndex index_name, Sleep 10] else [])
       @ [CreateIndexForModel index_name ''aws'' ''us-east-1'' ''llama-text-embed-v2''
            [(''text'', ''chunk_text'')],
          Sleep 10, OpenIndex index_name,
          DescribeIndexStats index_name,
          ChatModelInit ''gemini-2.0-flash'' gk (1 / 2),
          CreateStuffChain (ChatGoogleGenerativeAI ''gemini-2.0-flash'' gk (1 / 2))]"
proof -
  from up obtain pk gk where
    pk: "os_environ sv ''PINECONE_API_KEY'' = Some pk" and
    gk: "os_environ sv ''GOOGLE_API_KEY'' = Some gk"
    by (auto simp: services_up_def)
  from up have nr:
    "never_raises (pinecone_init sv)" "never_raises (list_index_names sv)"
    "never_raises (delete_index sv)" "never_raises (create_index_for_model sv)"
    "never_raises (open_index sv)" "never_raises (upsert_records sv)"
    "never_raises (describe_index_stats sv)"
    and nc: "never_raises (chat_model_init sv)"
    by (simp_all add: services_up_def)
  note unit = nc [THEN never_raises_unit]
  let ?llm = "ChatGoogleGenerativeAI ''gemini-2.0-flash'' gk (1 / 2)"
  define s4 where "s4 = s\<lparr>trace := trace s @
      [Print ''Loading documents...'',
       PyPDFDirectoryLoad DOCUMENTS_DIRECTORY,
       Print (''Number of documents loaded: '' @ str_nat (length docs)),
       Print ''Chunking documents...'',
       SplitDocuments 800 50 docs,
       Print (''Number of documents after chunking: '' @ str_nat 0),
       Print ''Setting up Pinecone index...'']\<rparr>"
  define s5 where "s5 = snd (setup_pinecone_index sv [] s4)"
  have r5: "setup_pinecone_index sv [] s4 = (Inr index_name, s5)"
    using setup_succeeds [OF pk nr, of "[]" s4] by (simp add: s5_def prod_eq_iff)
  have c4: "calls (trace s4) = calls (trace s) @
      [PyPDFDirectoryLoad DOCUMENTS_DIRECTORY, SplitDocuments 800 50 docs]"
    by (simp add: s4_def)
  obtain names where names: "list_index_names sv (calls (trace s) @
        [PyPDFDirectoryLoad DOCUMENTS_DIRECTORY, SplitDocuments 800 50 docs,
         PineconeInit pk, ListIndexes]) = Inr names"
    using never_raises_Inr [OF nr(2)] by blast
  from setup_run [OF r5] pk names c4 have
    t5: "trace s5 = trace s4 @ new_events s4 s5" and
    c5: "calls (new_events s4 s5) = reset_plan pk names (batches_from 0 (build_records []))"
    by simp_all
  have b0: "batches_from 0 (build_records []) = []"
    by (subst batches_from.simps) (simp add: build_records_def)
  have res: "fst (main sv s) = Inl e"
    and tr: "trace (snd (main sv s)) = trace s5 @
      [Print ''Initializing LLM and QA chain...'',
       ChatModelInit ''gemini-2.0-flash'' gk (1 / 2),
       CreateStuffChain ?llm]"
    using loader ne splitter r5 [unfolded s4_def] gk
    by (simp_all add: main_def read_doc_run chunk_data_run prog_defs unit chain Let_def)
  have t4: "trace s4 = trace s @
      [Print ''Loading documents...'',
       PyPDFDirectoryLoad DOCUMENTS_DIRECTORY,
       Print (''Number of documents loaded: '' @ str_nat (length docs)),
       Print ''Chunking documents...'',
       SplitDocuments 800 50 docs,
       Print (''Number of documents after chunking: '' @ str_nat 0),
       Print ''Setting up Pinecone index...'']"
    by (simp add: s4_def)
  have "drop (length (trace s)) (trace (snd (main sv s))) =
      [Print ''Loading documents...'',
       PyPDFDirectoryLoad DOCUMENTS_DIRECTORY,
       Print (''Number of documents loaded: '' @ str_nat (length docs)),
       Print ''Chunking documents...'',
       SplitDocuments 800 50 docs,
       Print (''Number of documents after chunking: '' @ str_nat 0),
       Print ''Setting up Pinecone index...'']
      @ new_events s4 s5
      @ [Print ''Initializing LLM and QA chain...'',
         ChatModelInit ''gemini-2.0-flash'' gk (1 / 2),
         CreateStuffChain ?llm]"
    by (simp add: tr t5 t4)
  then have "calls (drop (length (trace s)) (trace (snd (main sv s)))) =
       [PyPDFDirectoryLoad DOCUMENTS_DIRECTORY, SplitDocuments 800 50 docs,
        PineconeInit pk, ListIndexes]
       @ (if index_name \<in> set names then [DeleteIndex index_name, Sleep 10] else [])
       @ [CreateIndexForModel index_name ''aws'' ''us-east-1'' ''llama-text-embed-v2''
            [(''text'', ''chunk_text'')],
          Sleep 10, OpenIndex index_name,
          DescribeIndexStats index_name,
          ChatModelInit ''gemini-2.0-flash'' gk (1 / 2),
          CreateStuffChain ?llm]"
    by (simp add: c5 reset_plan_def b0)
  then have "calls (new_events s (snd (main sv s))) =
       [PyPDFDirectoryLoad DOCUMENTS_DIRECTORY, SplitDocuments 800 50 docs,
        PineconeInit pk, ListIndexes]
       @ (if index_name \<in> set names then [DeleteIndex index_name, Sleep 10] else [])
       @ [CreateIndexForModel index_name ''aws'' ''us-east-1'' ''llama-text-embed-v2''
            [(''text'', ''chunk_text'')],
          Sleep 10, OpenIndex index_name,
          DescribeIndexStats index_name,
          ChatModelInit ''gemini-2.0-flash'' gk (1 / 2),
          CreateStuffChain ?llm]"
    unfolding new_events_def .
  with pk gk names res show ?thesis by blast
qed

text \<open>
  The index exists, the splitter returns nothing, the chain constructor rejects
  \<^verbatim>\<open>prompt=None\<close>: delete, create, no write, statistics, model, chain constructor, end.
\<close>

theorem empty_chunks_stop_at_chain_witness:
  "fst (main (prompt_none_services [''lanchain'']) init_state) =
     Inl (ServiceError ''AttributeError: NoneType object has no attribute input_variables'') \<and>
   calls (new_events init_state (snd (main (prompt_none_services [''lanchain'']) init_state))) =
     [PyPDFDirectoryLoad DOCUMENTS_DIRECTORY, SplitDocuments 800 50 demo_docs,
      PineconeInit ''pk'', ListIndexes, DeleteIndex ''lanchain'', Sleep 10,
      CreateIndexForModel ''lanchain'' ''aws'' ''us-east-1'' ''llama-text-embed-v2''
        [(''text'', ''chunk_text'')],
      Sleep 10, OpenIndex ''lanchain'',
      DescribeIndexStats ''lanchain'',
      ChatModelInit ''gemini-2.0-flash'' ''gk'' (1 / 2),
      CreateStuffChain (ChatGoogleGenerativeAI ''gemini-2.0-flash'' ''gk'' (1 / 2))]"
proof -
  let ?sv = "prompt_none_services [''lanchain'']"
  have ne: "demo_docs \<noteq> []" by (simp add: demo_docs_def)
  have loader: "pdf_directory_load ?sv
      (calls (trace init_state) @ [PyPDFDirectoryLoad DOCUMENTS_DIRECTORY]) = Inr demo_docs"
    by (rule prompt_none_facts)
  have splitter: "split_documents ?sv (calls (trace init_state) @
      [PyPDFDirectoryLoad DOCUMENTS_DIRECTORY, SplitDocuments 800 50 demo_docs]) = Inr []"
    by (rule prompt_none_facts)
  have up: "services_up ?sv"
    by (rule prompt_none_facts)
  have chain: "\<And>h. create_stuff_documents_chain ?sv h =
      Inl (ServiceError ''AttributeError: NoneType object has no attribute input_variables'')"
    by (rule prompt_none_facts)
  from empty_chunks_stop_at_chain [OF loader ne splitter up chain]
  show ?thesis
    by (auto simp: prompt_none_facts index_name_def)
qed

end
